theory Spec2Isabelle
  imports Complex_Main
begin

section \<open>JavaScript strings and values\<close>

text \<open>
  The text of a file is a JavaScript string: a sequence of UTF-16 code units, each given by
  its number. The white-space test lists every code unit that \<^verbatim>\<open>String.prototype.trim\<close>
  strips, the white space and the line terminators of ECMAScript: tab, line feed, vertical
  tab, form feed, carriage return, space, no-break space, U+1680, U+2000 to U+200A, U+2028,
  U+2029, U+202F, U+205F, U+3000 and U+FEFF. All of them are single code units.
\<close>

type_synonym utf16 = "nat list"

definition isWhiteSpace :: "nat \<Rightarrow> bool" where
  "isWhiteSpace c =
     (c \<in> set [0x09, 0x0A, 0x0B, 0x0C, 0x0D, 0x20, 0xA0, 0x1680, 0x2000, 0x2001, 0x2002,
                0x2003, 0x2004, 0x2005, 0x2006, 0x2007, 0x2008, 0x2009, 0x200A, 0x2028,
                0x2029, 0x202F, 0x205F, 0x3000, 0xFEFF])"

definition trim :: "utf16 \<Rightarrow> utf16" where
  "trim s = rev (dropWhile isWhiteSpace (rev (dropWhile isWhiteSpace s)))"

text \<open>
  The code units of a text whose code points are all below 256, to write such a text as a
  literal. File names, identifiers, messages and URLs are strings of such code points.
\<close>

definition codeUnits :: "string \<Rightarrow> utf16" where
  "codeUnits s = map of_char s"

definition startsWith :: "string \<Rightarrow> string \<Rightarrow> bool" where
  "startsWith s p = (take (length p) s = p)"

definition endsWith :: "string \<Rightarrow> string \<Rightarrow> bool" where
  "endsWith s p = (length p \<le> length s \<and> drop (length s - length p) s = p)"

fun includesStr :: "string \<Rightarrow> string \<Rightarrow> bool" where
  "includesStr [] p = (p = [])"
| "includesStr (c # s) p = (startsWith (c # s) p \<or> includesStr s p)"

text \<open>Decimal rendering of a number, as a template literal prints a non-negative integer.\<close>

fun showNat :: "nat \<Rightarrow> string" where
  "showNat n = (if n < 10 then [''0123456789'' ! n]
                else showNat (n div 10) @ [''0123456789'' ! (n mod 10)])"

declare showNat.simps [simp del]

text \<open>
  A JavaScript value as \<^verbatim>\<open>JSON.parse\<close> or the store produces it. An object is the list
  of its own properties in the order \<^verbatim>\<open>Object.keys\<close> reports them; keys are distinct.
\<close>

datatype jsval =
    JUndefined
  | JNull
  | JBool bool
  | JNum int
  | JStr string
  | JArr "jsval list"
  | JObj "(string \<times> jsval) list"

fun truthy :: "jsval \<Rightarrow> bool" where
  "truthy JUndefined = False"
| "truthy JNull = False"
| "truthy (JBool b) = b"
| "truthy (JNum n) = (n \<noteq> 0)"
| "truthy (JStr s) = (s \<noteq> [])"
| "truthy (JArr xs) = True"
| "truthy (JObj kvs) = True"

fun isArray :: "jsval \<Rightarrow> bool" where
  "isArray (JArr xs) = True"
| "isArray v = False"

fun isString :: "jsval \<Rightarrow> bool" where
  "isString (JStr s) = True"
| "isString v = False"

fun elems :: "jsval \<Rightarrow> jsval list" where
  "elems (JArr xs) = xs"
| "elems v = []"

fun strOf :: "jsval \<Rightarrow> string" where
  "strOf (JStr s) = s"
| "strOf v = []"

text \<open>
  \<^verbatim>\<open>v?.k\<close>: the property \<open>k\<close> of \<open>v\<close>, \<^verbatim>\<open>undefined\<close> when \<open>v\<close> is nullish or has no
  such property. The keys read by the program (\<^verbatim>\<open>voices\<close>, \<^verbatim>\<open>id\<close>, \<^verbatim>\<open>files\<close>,
  \<^verbatim>\<open>ids\<close>, \<^verbatim>\<open>entities\<close>, \<^verbatim>\<open>audioSrc\<close>) are no built-in property of an array, a
  string, a number or a boolean, so only objects answer.
\<close>

fun optGet :: "jsval \<Rightarrow> string \<Rightarrow> jsval" where
  "optGet (JObj kvs) k = (case map_of kvs k of Some v \<Rightarrow> v | None \<Rightarrow> JUndefined)"
| "optGet v k = JUndefined"

text \<open>\<^verbatim>\<open>v.k\<close>: as \<^verbatim>\<open>v?.k\<close>, but a \<^verbatim>\<open>TypeError\<close> on a nullish \<open>v\<close>.\<close>

datatype jserror = TypeError | ErrorMsg string

fun getProp :: "jsval \<Rightarrow> string \<Rightarrow> jserror + jsval" where
  "getProp JUndefined k = Inl TypeError"
| "getProp JNull k = Inl TypeError"
| "getProp v k = Inr (optGet v k)"

section \<open>Voice list (transcriptionService.ts, fetchAvailableVoices)\<close>

text \<open>
  What \<^verbatim>\<open>fetch(API_BASE_URL/v1/audio/voices)\<close> does: it throws, or it answers with
  \<^verbatim>\<open>ok\<close>, \<^verbatim>\<open>status\<close>, \<^verbatim>\<open>statusText\<close> and a body that \<^verbatim>\<open>response.json()\<close>
  parses (\<open>Inr\<close>) or rejects with an error message (\<open>Inl\<close>).
\<close>

datatype VoicesFetch =
    VoicesFetchThrows string
  | VoicesResponse bool nat string "string + jsval"

definition everyString :: "jsval list \<Rightarrow> bool" where
  "everyString vs = list_all isString vs"

definition everyIdString :: "jsval list \<Rightarrow> bool" where
  "everyIdString vs = list_all (\<lambda>v. isString (optGet v ''id'')) vs"

text \<open>The fallback scan: the first property whose value is an array.\<close>

definition scanVoices :: "jsval \<Rightarrow> jserror + string list" where
  "scanVoices data =
     (case data of
        JObj kvs \<Rightarrow>
          (case filter (\<lambda>key. isArray (optGet data key)) (map fst kvs) of
             [] \<Rightarrow> Inl (ErrorMsg ''Unexpected format for available voices response.'')
           | key # _ \<Rightarrow>
               (let potentialVoices = elems (optGet data key) in
                if everyString potentialVoices then Inr (map strOf potentialVoices)
                else if everyIdString potentialVoices
                  then Inr (map (\<lambda>v. strOf (optGet v ''id'')) potentialVoices)
                else Inl (ErrorMsg ''Unexpected format for available voices response.'')))
      | _ \<Rightarrow> Inl (ErrorMsg ''Unexpected format for available voices response.''))"

text \<open>The body of the \<^verbatim>\<open>try\<close> block: \<open>Inl\<close> is a thrown error.\<close>

definition parseVoices :: "jsval \<Rightarrow> jserror + string list" where
  "parseVoices data =
     (if isArray data then Inr (map strOf (filter isString (elems data)))
      else if truthy data \<and> isArray (optGet data ''voices'')
              \<and> everyString (elems (optGet data ''voices''))
        then Inr (map strOf (elems (optGet data ''voices'')))
      else if truthy data \<and> isArray (optGet data ''voices'')
              \<and> everyIdString (elems (optGet data ''voices''))
        then Inr (map (\<lambda>v. strOf (optGet v ''id'')) (elems (optGet data ''voices'')))
      else scanVoices data)"

definition tryFetchVoices :: "VoicesFetch \<Rightarrow> jserror + string list" where
  "tryFetchVoices r =
     (case r of
        VoicesFetchThrows msg \<Rightarrow> Inl (ErrorMsg msg)
      | VoicesResponse ok status statusText body \<Rightarrow>
          if \<not> ok then
            Inl (ErrorMsg (''Failed to fetch voices: '' @ showNat status @ '' '' @ statusText))
          else (case body of
                  Inl msg \<Rightarrow> Inl (ErrorMsg msg)
                | Inr data \<Rightarrow> parseVoices data))"

definition fallbackVoices :: "string list" where
  "fallbackVoices = [''am_michael'', ''af_heart'']"

text \<open>
  The whole function with its \<^verbatim>\<open>catch\<close>: \<open>Inr\<close> is the list the promise resolves to,
  \<open>Inl\<close> would be a rejection.
\<close>

definition fetchAvailableVoices :: "VoicesFetch \<Rightarrow> jserror + string list" where
  "fetchAvailableVoices r =
     (case tryFetchVoices r of
        Inr voices \<Rightarrow> Inr voices
      | Inl e \<Rightarrow> Inr fallbackVoices)"

section \<open>Settings slice (settingsSlice.ts)\<close>

record SettingsState =
  selectedVoice :: string
  availableVoices :: "string list"
  selectedSpeed :: real
  isLoadingVoices :: bool

definition initialSettings :: SettingsState where
  "initialSettings =
     \<lparr> selectedVoice = ''am_michael'', availableVoices = [''am_michael''],
       selectedSpeed = 1, isLoadingVoices = False \<rparr>"

text \<open>\<^verbatim>\<open>Array.from(new Set(xs))\<close>: the first occurrence of every element, in order.\<close>

definition arrayFromSet :: "string list \<Rightarrow> string list" where
  "arrayFromSet xs = foldl (\<lambda>acc x. if x \<in> set acc then acc else acc @ [x]) [] xs"

datatype SettingsAction =
    SetSelectedVoice string
  | SetSelectedSpeed real
  | SetAvailableVoices "string list"
  | ResetSettings
  | LoadVoicesPending
  | LoadVoicesFulfilled "string list"
  | LoadVoicesRejected

fun settingsReducer :: "SettingsState \<Rightarrow> SettingsAction \<Rightarrow> SettingsState" where
  "settingsReducer state (SetSelectedVoice v) = state\<lparr>selectedVoice := v\<rparr>"
| "settingsReducer state (SetSelectedSpeed v) = state\<lparr>selectedSpeed := v\<rparr>"
| "settingsReducer state (SetAvailableVoices vs) = state\<lparr>availableVoices := vs\<rparr>"
| "settingsReducer state ResetSettings =
     state\<lparr>selectedVoice := selectedVoice initialSettings,
            selectedSpeed := selectedSpeed initialSettings\<rparr>"
| "settingsReducer state LoadVoicesPending = state\<lparr>isLoadingVoices := True\<rparr>"
| "settingsReducer state (LoadVoicesFulfilled payload) =
     (let uniqueVoices = arrayFromSet (''am_michael'' # payload);
          state1 = state\<lparr>isLoadingVoices := False, availableVoices := uniqueVoices\<rparr>
      in if ''am_michael'' \<in> set uniqueVoices then state1\<lparr>selectedVoice := ''am_michael''\<rparr>
         else if length uniqueVoices > 0 then state1\<lparr>selectedVoice := hd uniqueVoices\<rparr>
         else state1)"
| "settingsReducer state LoadVoicesRejected =
     (let state1 = state\<lparr>isLoadingVoices := False\<rparr>;
          state2 = (if ''am_michael'' \<notin> set (availableVoices state1)
                    then state1\<lparr>availableVoices :=
                           arrayFromSet (''am_michael'' # availableVoices state1)\<rparr>
                    else state1)
      in state2\<lparr>selectedVoice := ''am_michael''\<rparr>)"

text \<open>
  The \<^verbatim>\<open>loadVoices\<close> thunk: \<^verbatim>\<open>pending\<close> is dispatched, then \<^verbatim>\<open>fulfilled\<close> with the
  voices, or \<^verbatim>\<open>rejected\<close> when \<^verbatim>\<open>fetchAvailableVoices\<close> rejects.
\<close>

definition loadVoices :: "VoicesFetch \<Rightarrow> SettingsAction list" where
  "loadVoices r =
     [LoadVoicesPending,
      (case fetchAvailableVoices r of
         Inr voices \<Rightarrow> LoadVoicesFulfilled voices
       | Inl e \<Rightarrow> LoadVoicesRejected)]"

definition voicesInvariant :: "SettingsState \<Rightarrow> bool" where
  "voicesInvariant s =
     (''am_michael'' \<in> set (availableVoices s) \<and> distinct (availableVoices s)
      \<and> selectedVoice s \<in> set (availableVoices s))"


section \<open>Records and the entity adapter (types.ts, filesSlice.ts)\<close>

datatype FileStatus = Pending | Reading | Ready | Processing | Transcribed | Error

record ProcessedFile =
  file_id :: string
  name :: string
  content :: utf16
  status :: FileStatus
  audioSrc :: "string option"
  error :: "string option"

text \<open>
  The normalized state of \<^verbatim>\<open>createEntityAdapter\<close>: the sorted \<^verbatim>\<open>ids\<close> and the
  \<^verbatim>\<open>entities\<close> object, keyed by id, as the list of its properties in insertion order.
\<close>

record EntityState =
  ids :: "string list"
  entities :: "(string \<times> ProcessedFile) list"

definition getInitialState :: EntityState where
  "getInitialState = \<lparr> ids = [], entities = [] \<rparr>"

definition selectById :: "EntityState \<Rightarrow> string \<Rightarrow> ProcessedFile option" where
  "selectById st k = map_of (entities st) k"

text \<open>
  \<^verbatim>\<open>sortComparer: (a, b) => a.name.localeCompare(b.name)\<close>. The collation \<open>lc\<close> of
  \<^verbatim>\<open>localeCompare\<close> depends on the locale of the browser and is a parameter.
\<close>

definition sortComparer :: "(string \<Rightarrow> string \<Rightarrow> int) \<Rightarrow> ProcessedFile \<Rightarrow> ProcessedFile \<Rightarrow> int" where
  "sortComparer lc a b = lc (name a) (name b)"

text \<open>A collation to run the model with: code units compared from the left.\<close>

fun compareUnits :: "string \<Rightarrow> string \<Rightarrow> int" where
  "compareUnits [] [] = 0"
| "compareUnits [] (d # t) = -1"
| "compareUnits (c # s) [] = 1"
| "compareUnits (c # s) (d # t) =
     (if (of_char c :: nat) < of_char d then -1
      else if (of_char d :: nat) < of_char c then 1
      else compareUnits s t)"

text \<open>\<^verbatim>\<open>Array.prototype.sort\<close> with a comparer, which is stable.\<close>

fun insertSorted :: "('a \<Rightarrow> 'a \<Rightarrow> int) \<Rightarrow> 'a \<Rightarrow> 'a list \<Rightarrow> 'a list" where
  "insertSorted cmp x [] = [x]"
| "insertSorted cmp x (y # ys) =
     (if cmp x y \<le> 0 then x # y # ys else y # insertSorted cmp x ys)"

definition sortWith :: "('a \<Rightarrow> 'a \<Rightarrow> int) \<Rightarrow> 'a list \<Rightarrow> 'a list" where
  "sortWith cmp xs = foldr (insertSorted cmp) xs []"

text \<open>\<^verbatim>\<open>obj[k] = v\<close>: an existing property keeps its place, a new one goes last.\<close>

fun objPut :: "string \<Rightarrow> 'v \<Rightarrow> (string \<times> 'v) list \<Rightarrow> (string \<times> 'v) list" where
  "objPut k v [] = [(k, v)]"
| "objPut k v ((k', v') # kvs) =
     (if k' = k then (k, v) # kvs else (k', v') # objPut k v kvs)"

text \<open>
  The sorted adapter of Redux Toolkit: after entities are added or updated, \<^verbatim>\<open>ids\<close> is
  recomputed as the ids of all entities, sorted by the comparer.
\<close>

definition resortEntities :: "(string \<Rightarrow> string \<Rightarrow> int) \<Rightarrow> EntityState \<Rightarrow> EntityState" where
  "resortEntities lc st =
     st\<lparr>ids := map file_id (sortWith (sortComparer lc) (map snd (entities st)))\<rparr>"

text \<open>\<^verbatim>\<open>addMany\<close>: the entities whose id the state does not hold yet are stored.\<close>

definition addMany :: "(string \<Rightarrow> string \<Rightarrow> int) \<Rightarrow> EntityState \<Rightarrow> ProcessedFile list \<Rightarrow> EntityState" where
  "addMany lc st newEntities =
     (let models = filter (\<lambda>m. file_id m \<notin> set (map fst (entities st))) newEntities
      in if models = [] then st
         else resortEntities lc
                (st\<lparr>entities := foldl (\<lambda>es m. objPut (file_id m) m es) (entities st) models\<rparr>))"

text \<open>
  The \<^verbatim>\<open>changes\<close> object of an update. \<open>None\<close> is a key the object does not have;
  \<open>Some None\<close> is a key whose value is \<^verbatim>\<open>undefined\<close>.
\<close>

record Changes =
  statusChange :: "FileStatus option"
  audioSrcChange :: "string option option"
  errorChange :: "string option option"

definition assign :: "ProcessedFile \<Rightarrow> Changes \<Rightarrow> ProcessedFile" where
  "assign entity changes =
     entity\<lparr> status := (case statusChange changes of Some s \<Rightarrow> s | None \<Rightarrow> status entity),
             audioSrc := (case audioSrcChange changes of Some a \<Rightarrow> a | None \<Rightarrow> audioSrc entity),
             error := (case errorChange changes of Some e \<Rightarrow> e | None \<Rightarrow> error entity) \<rparr>"

text \<open>\<^verbatim>\<open>updateOne\<close>: nothing happens when the state holds no entity under the id.\<close>

definition updateOne :: "(string \<Rightarrow> string \<Rightarrow> int) \<Rightarrow> EntityState \<Rightarrow> string \<Rightarrow> Changes \<Rightarrow> EntityState" where
  "updateOne lc st k changes =
     (if k \<in> set (map fst (entities st))
      then resortEntities lc
             (st\<lparr>entities :=
                 map (\<lambda>(k', entity). if k' = k then (k', assign entity changes) else (k', entity))
                   (entities st)\<rparr>)
      else st)"

definition removeAll :: "EntityState \<Rightarrow> EntityState" where
  "removeAll st = st\<lparr>ids := [], entities := []\<rparr>"

section \<open>Files slice (filesSlice.ts)\<close>

record Progress =
  current :: nat
  total :: nat
  currentFileName :: "string option"

record FilesState =
  files :: EntityState
  isReadingFiles :: bool
  isTranscribing :: bool
  isDownloading :: bool
  isRestoringAudio :: bool
  transcriptionProgress :: Progress
  stateError :: "string option"

definition initialState :: FilesState where
  "initialState =
     \<lparr> files = getInitialState, isReadingFiles = False, isTranscribing = False,
       isDownloading = False, isRestoringAudio = False,
       transcriptionProgress = \<lparr> current = 0, total = 0, currentFileName = None \<rparr>,
       stateError = None \<rparr>"

text \<open>
  The actions of the slice and of its thunks. A thunk's \<^verbatim>\<open>pending\<close> and \<^verbatim>\<open>rejected\<close>
  actions carry the file of \<^verbatim>\<open>meta.arg\<close>; a \<^verbatim>\<open>rejected\<close> action carries the optional
  \<^verbatim>\<open>payload\<close>, and for \<^verbatim>\<open>transcribeFile\<close> the optional \<^verbatim>\<open>error.message\<close> too.
\<close>

datatype FilesAction =
    SetIsReadingFiles bool
  | SetIsTranscribing bool
  | SetIsDownloading bool
  | SetIsRestoringAudio bool
  | SetTranscriptionProgress Progress
  | AddProcessedFiles "ProcessedFile list"
  | UpdateFileStatus string FileStatus "string option"
  | UpdateFileWithAudio string string
  | ClearAllFiles
  | ClearError
  | RestoreAudioDataPending
  | RestoreAudioDataFulfilled
  | RestoreAudioDataRejected "string option"
  | RefetchAudioForFilePending ProcessedFile
  | RefetchAudioForFileFulfilled string string
  | RefetchAudioForFileRejected ProcessedFile "string option"
  | TranscribeFilePending ProcessedFile
  | TranscribeFileFulfilled string string
  | TranscribeFileRejected ProcessedFile "string option" "string option"
  | TranscribeMultipleFilesPending
  | TranscribeMultipleFilesFulfilled nat nat
  | TranscribeMultipleFilesRejected "string option"

text \<open>\<^verbatim>\<open>a || b\<close> on optional strings: \<open>a\<close> unless it is undefined or empty.\<close>

definition orElse :: "string option \<Rightarrow> string \<Rightarrow> string" where
  "orElse a b = (case a of Some s \<Rightarrow> (if s = [] then b else s) | None \<Rightarrow> b)"

definition stillProcessing :: "FilesState \<Rightarrow> bool" where
  "stillProcessing state =
     list_ex (\<lambda>f. status f = Processing) (map snd (entities (files state)))"

definition zeroProgress :: Progress where
  "zeroProgress = \<lparr> current = 0, total = 0, currentFileName = None \<rparr>"

fun filesReducer :: "(string \<Rightarrow> string \<Rightarrow> int) \<Rightarrow> FilesState \<Rightarrow> FilesAction \<Rightarrow> FilesState" where
  "filesReducer lc state (SetIsReadingFiles b) =
     (let state1 = state\<lparr>isReadingFiles := b\<rparr>
      in if \<not> b then state1\<lparr>stateError := None\<rparr> else state1)"
| "filesReducer lc state (SetIsTranscribing b) =
     (let state1 = state\<lparr>isTranscribing := b\<rparr>
      in if \<not> b then state1\<lparr>transcriptionProgress := zeroProgress\<rparr> else state1)"
| "filesReducer lc state (SetIsDownloading b) = state\<lparr>isDownloading := b\<rparr>"
| "filesReducer lc state (SetIsRestoringAudio b) = state\<lparr>isRestoringAudio := b\<rparr>"
| "filesReducer lc state (SetTranscriptionProgress p) = state\<lparr>transcriptionProgress := p\<rparr>"
| "filesReducer lc state (AddProcessedFiles payload) =
     state\<lparr>files := addMany lc (files state) payload, stateError := None\<rparr>"
| "filesReducer lc state (UpdateFileStatus fileId st err) =
     state\<lparr>files := updateOne lc (files state) fileId
        \<lparr> statusChange = Some st,
          audioSrcChange = None,
          errorChange =
            (if st \<noteq> Error then Some None
             else (case err of
                     Some e \<Rightarrow> (if e \<noteq> [] then Some (Some e) else None)
                   | None \<Rightarrow> None)) \<rparr>\<rparr>"
| "filesReducer lc state (UpdateFileWithAudio fileId src) =
     state\<lparr>files := updateOne lc (files state) fileId
        \<lparr> statusChange = Some Transcribed, audioSrcChange = Some (Some src),
          errorChange = Some None \<rparr>\<rparr>"
| "filesReducer lc state ClearAllFiles =
     state\<lparr>files := removeAll (files state), stateError := None,
           transcriptionProgress := zeroProgress\<rparr>"
| "filesReducer lc state ClearError = state\<lparr>stateError := None\<rparr>"
| "filesReducer lc state RestoreAudioDataPending =
     state\<lparr>isRestoringAudio := True, stateError := None\<rparr>"
| "filesReducer lc state RestoreAudioDataFulfilled = state\<lparr>isRestoringAudio := False\<rparr>"
| "filesReducer lc state (RestoreAudioDataRejected payload) =
     state\<lparr>isRestoringAudio := False,
           stateError := Some (orElse payload ''Failed to restore audio data'')\<rparr>"
| "filesReducer lc state (RefetchAudioForFilePending file) =
     state\<lparr>files := updateOne lc (files state) (file_id file)
        \<lparr> statusChange = Some Processing, audioSrcChange = None, errorChange = Some None \<rparr>\<rparr>"
| "filesReducer lc state (RefetchAudioForFileFulfilled fileId src) =
     state\<lparr>files := updateOne lc (files state) fileId
        \<lparr> statusChange = Some Transcribed, audioSrcChange = Some (Some src),
          errorChange = Some None \<rparr>\<rparr>"
| "filesReducer lc state (RefetchAudioForFileRejected file payload) =
     state\<lparr>files := updateOne lc (files state) (file_id file)
        \<lparr> statusChange = Some Error, audioSrcChange = None,
          errorChange = Some (Some (orElse payload ''Failed to re-fetch audio'')) \<rparr>\<rparr>"
| "filesReducer lc state (TranscribeFilePending file) =
     state\<lparr>files := updateOne lc (files state) (file_id file)
              \<lparr> statusChange = Some Processing, audioSrcChange = None,
                errorChange = Some None \<rparr>,
           isTranscribing := True, stateError := None\<rparr>"
| "filesReducer lc state (TranscribeFileFulfilled fileId src) =
     (let state1 = state\<lparr>files := updateOne lc (files state) fileId
                     \<lparr> statusChange = Some Transcribed, audioSrcChange = Some (Some src),
                       errorChange = Some None \<rparr>\<rparr>
      in if \<not> stillProcessing state1 then state1\<lparr>isTranscribing := False\<rparr> else state1)"
| "filesReducer lc state (TranscribeFileRejected file payload message) =
     (let errorMessage = orElse payload (orElse message ''Transcription failed'');
          state1 = state\<lparr>files := updateOne lc (files state) (file_id file)
                     \<lparr> statusChange = Some Error, audioSrcChange = None,
                       errorChange = Some (Some errorMessage) \<rparr>\<rparr>
      in if \<not> stillProcessing state1 then state1\<lparr>isTranscribing := False\<rparr> else state1)"
| "filesReducer lc state TranscribeMultipleFilesPending =
     state\<lparr>isTranscribing := True, stateError := None\<rparr>"
| "filesReducer lc state (TranscribeMultipleFilesFulfilled successCount errorCount) =
     (let state1 = state\<lparr>isTranscribing := False\<rparr>
      in if errorCount > 0
         then state1\<lparr>stateError := Some (''Completed with '' @ showNat successCount
                 @ '' successes and '' @ showNat errorCount @ '' errors'')\<rparr>
         else state1)"
| "filesReducer lc state (TranscribeMultipleFilesRejected payload) =
     state\<lparr>isTranscribing := False,
           stateError := Some (orElse payload ''Bulk transcription failed'')\<rparr>"


section \<open>Speech synthesis (transcriptionService.ts, transcribeText)\<close>

definition API_BASE_URL :: string where
  "API_BASE_URL = ''http://localhost:8880''"

text \<open>The JSON body posted to \<^verbatim>\<open>API_BASE_URL/v1/audio/speech\<close>.\<close>

record SpeechRequest =
  req_input :: utf16
  req_model :: string
  req_voice :: string
  req_speed :: real
  req_response_format :: string
  req_stream :: bool
  req_return_download_link :: bool

text \<open>
  What the body of a failed response gives to the error message: \<^verbatim>\<open>response.json()\<close>
  rejects or reading \<^verbatim>\<open>detail\<close> throws; \<^verbatim>\<open>detail\<close> is missing or falsy; \<^verbatim>\<open>detail\<close> is a
  non-empty array whose first element has a truthy \<^verbatim>\<open>msg\<close> (carried as the text the
  template literal prints); \<^verbatim>\<open>detail\<close> is a string; \<^verbatim>\<open>detail\<close> is anything else
  (carried as the text of \<^verbatim>\<open>JSON.stringify(detail)\<close>).
\<close>

datatype ErrorBody =
    JsonFails
  | NoDetail
  | DetailMsg string
  | DetailString string
  | DetailOther string

text \<open>
  What one \<^verbatim>\<open>fetch\<close> of the speech endpoint does: it throws an error with a message; it
  answers with a status that is not 2xx, a status text and a body; or it answers 2xx with an
  optional \<^verbatim>\<open>Content-Type\<close> header, an optional \<^verbatim>\<open>X-Download-Path\<close> header, and a body
  for which \<^verbatim>\<open>response.blob()\<close> followed by \<^verbatim>\<open>URL.createObjectURL\<close> gives an object
  URL (\<open>Inr\<close>) or throws (\<open>Inl\<close>).
\<close>

datatype FetchOutcome =
    FetchThrows string
  | HttpFailure nat string ErrorBody
  | HttpOk "string option" "string option" "string + string"

record TranscriptionResult =
  resultAudioSrc :: string

definition errorBodyMessage :: "string \<Rightarrow> nat \<Rightarrow> string \<Rightarrow> ErrorBody \<Rightarrow> string" where
  "errorBodyMessage fileName code statusText body =
     ''API request failed for '' @ fileName @ '' with status '' @ showNat code @ '': '' @
     (case body of
        JsonFails \<Rightarrow> statusText
      | NoDetail \<Rightarrow> statusText
      | DetailMsg m \<Rightarrow> m
      | DetailString d \<Rightarrow> d
      | DetailOther j \<Rightarrow> j)"

definition notRecognized :: "string \<Rightarrow> string" where
  "notRecognized fileName =
     ''API response format not recognized for '' @ fileName
     @ ''. Expected either audio content or a download path.''"

text \<open>The \<^verbatim>\<open>try\<close> block after the request: \<open>Inl\<close> is the message of a thrown error.\<close>

definition speechResponse :: "string \<Rightarrow> FetchOutcome \<Rightarrow> string + string" where
  "speechResponse fileName r =
     (case r of
        FetchThrows msg \<Rightarrow> Inl msg
      | HttpFailure code statusText body \<Rightarrow> Inl (errorBodyMessage fileName code statusText body)
      | HttpOk contentType downloadPath blob \<Rightarrow>
          if (case contentType of Some ct \<Rightarrow> ct \<noteq> [] \<and> includesStr ct ''audio/'' | None \<Rightarrow> False)
          then blob
          else (case downloadPath of
                  Some dp \<Rightarrow> if dp \<noteq> [] then Inr (API_BASE_URL @ dp)
                             else Inl (notRecognized fileName)
                | None \<Rightarrow> Inl (notRecognized fileName)))"

text \<open>The \<^verbatim>\<open>catch\<close> block: the message of the error thrown again.\<close>

definition rethrown :: "string \<Rightarrow> string \<Rightarrow> string" where
  "rethrown fileName msg =
     (if startsWith msg ''API request failed'' \<or> includesStr msg ''X-Download-Path'' then msg
      else ''Transcription failed for '' @ fileName @ '': '' @ msg)"

text \<open>
  \<^verbatim>\<open>transcribeText\<close>, given what \<^verbatim>\<open>fetch\<close> does with a request: the requests sent, and
  the result (\<open>Inr\<close>) or the message of the error thrown (\<open>Inl\<close>).
\<close>

definition transcribeText ::
  "(SpeechRequest \<Rightarrow> FetchOutcome) \<Rightarrow> utf16 \<Rightarrow> string \<Rightarrow> string \<Rightarrow> real
     \<Rightarrow> SpeechRequest list \<times> (string + TranscriptionResult)" where
  "transcribeText fetch text fileName v sp =
     (if text = [] \<or> length (trim text) = 0
      then ([], Inl (''Cannot transcribe empty text for '' @ fileName @ ''.''))
      else
        (let requestBody =
               \<lparr> req_input = text, req_model = ''kokoro'', req_voice = v, req_speed = sp,
                 req_response_format = ''mp3'', req_stream = False,
                 req_return_download_link = True \<rparr>
         in ([requestBody],
             (case speechResponse fileName (fetch requestBody) of
                Inr src \<Rightarrow> Inr \<lparr> resultAudioSrc = src \<rparr>
              | Inl msg \<Rightarrow> Inl (rethrown fileName msg)))))"

section \<open>Thunks (filesSlice.ts)\<close>

text \<open>
  What a thunk does, in order: the actions it dispatches to the store and the requests it
  sends. \<^verbatim>\<open>createAsyncThunk\<close> dispatches \<^verbatim>\<open>pending\<close> before it runs the payload creator,
  and \<^verbatim>\<open>fulfilled\<close> or \<^verbatim>\<open>rejected\<close> when that has settled; \<^verbatim>\<open>rejectWithValue(m)\<close> gives
  a \<^verbatim>\<open>rejected\<close> action with payload \<open>m\<close> and \<^verbatim>\<open>error.message\<close> \<^verbatim>\<open>'Rejected'\<close>.
\<close>

datatype Event = Dispatch FilesAction | Request SpeechRequest

fun isRequest :: "Event \<Rightarrow> bool" where
  "isRequest (Request r) = True"
| "isRequest (Dispatch a) = False"

text \<open>
  \<^verbatim>\<open>dispatch(transcribeFile({file, voice, speed}))\<close>: the events, and what \<^verbatim>\<open>unwrap()\<close>
  gives: the payload, or the rejection value thrown.
\<close>

definition transcribeFile ::
  "(SpeechRequest \<Rightarrow> FetchOutcome) \<Rightarrow> ProcessedFile \<Rightarrow> string \<Rightarrow> real
     \<Rightarrow> Event list \<times> (string + string \<times> TranscriptionResult)" where
  "transcribeFile fetch file v sp =
     (case transcribeText fetch (content file) (name file) v sp of
        (requests, Inr result) \<Rightarrow>
          (Dispatch (TranscribeFilePending file) # map Request requests
             @ [Dispatch (TranscribeFileFulfilled (file_id file) (resultAudioSrc result))],
           Inr (file_id file, result))
      | (requests, Inl message) \<Rightarrow>
          (Dispatch (TranscribeFilePending file) # map Request requests
             @ [Dispatch (TranscribeFileRejected file (Some message) (Some ''Rejected''))],
           Inl message))"

definition refetchAudioForFile ::
  "(SpeechRequest \<Rightarrow> FetchOutcome) \<Rightarrow> ProcessedFile \<Rightarrow> string \<Rightarrow> real
     \<Rightarrow> Event list \<times> (string + string \<times> string)" where
  "refetchAudioForFile fetch file v sp =
     (case transcribeText fetch (content file) (name file) v sp of
        (requests, Inr result) \<Rightarrow>
          (Dispatch (RefetchAudioForFilePending file) # map Request requests
             @ [Dispatch (RefetchAudioForFileFulfilled (file_id file) (resultAudioSrc result))],
           Inr (file_id file, resultAudioSrc result))
      | (requests, Inl message) \<Rightarrow>
          (Dispatch (RefetchAudioForFilePending file) # map Request requests
             @ [Dispatch (RefetchAudioForFileRejected file (Some message))],
           Inl message))"

text \<open>
  The loop of \<^verbatim>\<open>transcribeMultipleFiles\<close> from index \<open>i\<close> on. \<open>env i\<close> is what
  \<^verbatim>\<open>fetch\<close> does during the attempt at index \<open>i\<close>.
\<close>

fun transcribeLoop ::
  "(nat \<Rightarrow> SpeechRequest \<Rightarrow> FetchOutcome) \<Rightarrow> string \<Rightarrow> real \<Rightarrow> nat \<Rightarrow> nat
     \<Rightarrow> ProcessedFile list \<Rightarrow> nat \<times> nat \<Rightarrow> Event list \<times> nat \<times> nat" where
  "transcribeLoop env v sp len i [] (successCount, errorCount) =
     ([], successCount, errorCount)"
| "transcribeLoop env v sp len i (file # rest) (successCount, errorCount) =
     (let progress = Dispatch (SetTranscriptionProgress
            \<lparr> current = i + 1, total = len, currentFileName = Some (name file) \<rparr>);
          (events, unwrapped) = transcribeFile (env i) file v sp;
          counts = (case unwrapped of
                      Inr payload \<Rightarrow> (successCount + 1, errorCount)
                    | Inl rejected \<Rightarrow> (successCount, errorCount + 1));
          (more, result) = transcribeLoop env v sp len (i + 1) rest counts
      in (progress # events @ more, result))"

definition transcribeMultipleFiles ::
  "(nat \<Rightarrow> SpeechRequest \<Rightarrow> FetchOutcome) \<Rightarrow> ProcessedFile list \<Rightarrow> string \<Rightarrow> real
     \<Rightarrow> Event list \<times> (string + nat \<times> nat)" where
  "transcribeMultipleFiles env fs v sp =
     (case transcribeLoop env v sp (length fs) 0 fs (0, 0) of
        (events, successCount, errorCount) \<Rightarrow>
          (Dispatch TranscribeMultipleFilesPending
             # Dispatch (SetTranscriptionProgress
                 \<lparr> current = 0, total = length fs, currentFileName = None \<rparr>)
             # events
             @ [Dispatch (SetTranscriptionProgress
                  \<lparr> current = 0, total = 0, currentFileName = None \<rparr>),
                Dispatch (TranscribeMultipleFilesFulfilled successCount errorCount)],
           Inr (successCount, errorCount)))"

section \<open>The store over time\<close>

fun step :: "(string \<Rightarrow> string \<Rightarrow> int) \<Rightarrow> FilesState \<Rightarrow> Event \<Rightarrow> FilesState" where
  "step lc state (Dispatch a) = filesReducer lc state a"
| "step lc state (Request r) = state"

definition run :: "(string \<Rightarrow> string \<Rightarrow> int) \<Rightarrow> FilesState \<Rightarrow> Event list \<Rightarrow> FilesState" where
  "run lc state events = foldl (step lc) state events"

text \<open>The states the store goes through: the first one, then the one after each event.\<close>

fun trace :: "(string \<Rightarrow> string \<Rightarrow> int) \<Rightarrow> FilesState \<Rightarrow> Event list \<Rightarrow> FilesState list" where
  "trace lc state [] = [state]"
| "trace lc state (e # es) = state # trace lc (step lc state e) es"

definition statusOf :: "FilesState \<Rightarrow> string \<Rightarrow> FileStatus option" where
  "statusOf state k = map_option status (selectById (files state) k)"

text \<open>
  Three observations of the store over the events of one synthesis attempt for the record
  \<open>k\<close>: the record is \<^verbatim>\<open>processing\<close> in the state in which a request is sent; the record
  is not \<^verbatim>\<open>ready\<close> in any state after the first event; no single step takes the record from
  \<^verbatim>\<open>ready\<close> to \<^verbatim>\<open>transcribed\<close> or to \<^verbatim>\<open>error\<close>.
\<close>

definition processingWhenSent ::
  "(string \<Rightarrow> string \<Rightarrow> int) \<Rightarrow> FilesState \<Rightarrow> Event list \<Rightarrow> string \<Rightarrow> bool" where
  "processingWhenSent lc state events k =
     list_all (\<lambda>(e, st). isRequest e \<longrightarrow> statusOf st k = Some Processing)
       (zip events (trace lc state events))"

definition neverReadyAfterDispatch ::
  "(string \<Rightarrow> string \<Rightarrow> int) \<Rightarrow> FilesState \<Rightarrow> Event list \<Rightarrow> string \<Rightarrow> bool" where
  "neverReadyAfterDispatch lc state events k =
     list_all (\<lambda>st. statusOf st k \<noteq> Some Ready) (tl (trace lc state events))"

definition noSkipOfProcessing ::
  "(string \<Rightarrow> string \<Rightarrow> int) \<Rightarrow> FilesState \<Rightarrow> Event list \<Rightarrow> string \<Rightarrow> bool" where
  "noSkipOfProcessing lc state events k =
     list_all (\<lambda>(st, st'). statusOf st k = Some Ready \<longrightarrow>
                  statusOf st' k \<noteq> Some Transcribed \<and> statusOf st' k \<noteq> Some Error)
       (zip (trace lc state events) (tl (trace lc state events)))"

text \<open>The files for which a run dispatches the \<^verbatim>\<open>pending\<close> action of \<^verbatim>\<open>transcribeFile\<close>.\<close>

fun attempted :: "Event list \<Rightarrow> ProcessedFile list" where
  "attempted [] = []"
| "attempted (Dispatch (TranscribeFilePending f) # es) = f # attempted es"
| "attempted (e # es) = attempted es"

text \<open>The progress values a run dispatches, in order.\<close>

fun progressUpdates :: "Event list \<Rightarrow> Progress list" where
  "progressUpdates [] = []"
| "progressUpdates (Dispatch (SetTranscriptionProgress p) # es) = p # progressUpdates es"
| "progressUpdates (e # es) = progressUpdates es"

section \<open>The exclusion invariant of a record\<close>

text \<open>
  A defined \<^verbatim>\<open>audioSrc\<close> is one that is neither \<^verbatim>\<open>undefined\<close> nor empty; a defined
  \<^verbatim>\<open>error\<close> is one that is not \<^verbatim>\<open>undefined\<close>.
\<close>

definition audioDefined :: "ProcessedFile \<Rightarrow> bool" where
  "audioDefined f = (case audioSrc f of Some a \<Rightarrow> a \<noteq> [] | None \<Rightarrow> False)"

definition errorImpliesStatus :: "ProcessedFile \<Rightarrow> bool" where
  "errorImpliesStatus f = (error f \<noteq> None \<longrightarrow> status f = Error)"

definition audioImpliesStatus :: "ProcessedFile \<Rightarrow> bool" where
  "audioImpliesStatus f = (audioDefined f \<longrightarrow> status f = Transcribed)"

definition exclusive :: "ProcessedFile \<Rightarrow> bool" where
  "exclusive f = (errorImpliesStatus f \<and> audioImpliesStatus f)"

definition allRecords :: "(ProcessedFile \<Rightarrow> bool) \<Rightarrow> FilesState \<Rightarrow> bool" where
  "allRecords P state = list_all P (map snd (entities (files state)))"

text \<open>The records an action brings into the store satisfy \<open>P\<close>.\<close>

definition payloadSatisfies :: "(ProcessedFile \<Rightarrow> bool) \<Rightarrow> FilesAction \<Rightarrow> bool" where
  "payloadSatisfies P a = (case a of AddProcessedFiles payload \<Rightarrow> list_all P payload | _ \<Rightarrow> True)"

text \<open>The id of the record that an action moves to a status other than \<^verbatim>\<open>transcribed\<close>.\<close>

fun leavesTranscribed :: "FilesAction \<Rightarrow> string option" where
  "leavesTranscribed (UpdateFileStatus fileId st err) =
     (if st \<noteq> Transcribed then Some fileId else None)"
| "leavesTranscribed (RefetchAudioForFilePending file) = Some (file_id file)"
| "leavesTranscribed (RefetchAudioForFileRejected file payload) = Some (file_id file)"
| "leavesTranscribed (TranscribeFilePending file) = Some (file_id file)"
| "leavesTranscribed (TranscribeFileRejected file payload message) = Some (file_id file)"
| "leavesTranscribed a = None"

definition noAudioUnder :: "FilesState \<Rightarrow> string \<Rightarrow> bool" where
  "noAudioUnder state k =
     list_all (\<lambda>(k', f). k' = k \<longrightarrow> \<not> audioDefined f) (entities (files state))"

section \<open>Reading uploaded files (App.tsx, handleFilesSelected)\<close>

text \<open>
  An entry of an archive as JSZip gives it: its name, whether it is a directory, and what
  \<^verbatim>\<open>zipEntry.async('string')\<close> gives: the text (\<open>Inr\<close>) or the text of the error it
  rejects with (\<open>Inl\<close>).
\<close>

record ZipEntry =
  entryName :: string
  dir :: bool
  entryText :: "string + utf16"

text \<open>
  An uploaded file: its name and type, what \<^verbatim>\<open>readFileContent\<close> gives for it, and what
  \<^verbatim>\<open>jszip.loadAsync\<close> gives for it (the entries, or the text of the error).
\<close>

record Upload =
  uploadName :: string
  uploadType :: string
  readFileContent :: "string + utf16"
  loadAsync :: "string + ZipEntry list"

definition readyFile :: "string \<Rightarrow> string \<Rightarrow> utf16 \<Rightarrow> ProcessedFile" where
  "readyFile uid nm txt =
     \<lparr> file_id = uid, name = nm, content = txt, status = Ready, audioSrc = None, error = None \<rparr>"

definition errorFile :: "string \<Rightarrow> string \<Rightarrow> string \<Rightarrow> ProcessedFile" where
  "errorFile uid nm msg =
     \<lparr> file_id = uid, name = nm, content = [], status = Error, audioSrc = None,
       error = Some msg \<rparr>"

text \<open>
  The callback of \<^verbatim>\<open>zip.forEach\<close> over the entries, and \<^verbatim>\<open>Promise.all\<close> of the promises
  it collects. \<open>uuid n\<close> is the \<open>n\<close>-th value of \<^verbatim>\<open>crypto.randomUUID()\<close>.
\<close>

fun extractEntries :: "(nat \<Rightarrow> string) \<Rightarrow> nat \<Rightarrow> ZipEntry list \<Rightarrow> ProcessedFile list" where
  "extractEntries uuid n [] = []"
| "extractEntries uuid n (zipEntry # rest) =
     (if \<not> dir zipEntry
         \<and> (endsWith (entryName zipEntry) ''.txt'' \<or> endsWith (entryName zipEntry) ''.TXT'')
      then (case entryText zipEntry of
              Inr txt \<Rightarrow> readyFile (uuid n) (entryName zipEntry) txt
            | Inl err \<Rightarrow> errorFile (uuid n) (entryName zipEntry)
                          (''Failed to read from ZIP: '' @ err))
           # extractEntries uuid (Suc n) rest
      else extractEntries uuid n rest)"

text \<open>The loop over the uploaded files, which collects \<^verbatim>\<open>newFilesToProcess\<close>.\<close>

fun readUploads :: "(nat \<Rightarrow> string) \<Rightarrow> nat \<Rightarrow> Upload list \<Rightarrow> ProcessedFile list" where
  "readUploads uuid n [] = []"
| "readUploads uuid n (f # rest) =
     (if uploadType f = ''text/plain'' \<or> endsWith (uploadName f) ''.txt''
      then (case readFileContent f of
              Inr txt \<Rightarrow> readyFile (uuid n) (uploadName f) txt
            | Inl err \<Rightarrow> errorFile (uuid n) (uploadName f) (''Failed to read file: '' @ err))
           # readUploads uuid (Suc n) rest
      else if uploadType f = ''application/zip'' \<or> endsWith (uploadName f) ''.zip''
      then (case loadAsync f of
              Inr zipEntries \<Rightarrow>
                (let filesFromZip = extractEntries uuid n zipEntries
                 in filesFromZip @ readUploads uuid (n + length filesFromZip) rest)
            | Inl err \<Rightarrow>
                errorFile (uuid n) (uploadName f) (''Failed to process ZIP: '' @ err)
                # readUploads uuid (Suc n) rest)
      else errorFile (uuid n) (uploadName f)
             ''Unsupported file type. Please upload .txt or .zip files.''
           # readUploads uuid (Suc n) rest)"

text \<open>The actions \<^verbatim>\<open>handleFilesSelected\<close> dispatches to the files slice.\<close>

definition handleFilesSelected :: "(nat \<Rightarrow> string) \<Rightarrow> Upload list \<Rightarrow> FilesAction list" where
  "handleFilesSelected uuid uploads =
     (if length uploads = 0 then []
      else [SetIsReadingFiles True, ClearError,
            AddProcessedFiles (readUploads uuid 0 uploads), SetIsReadingFiles False])"

section \<open>Persistence transforms (store/index.ts)\<close>

text \<open>
  \<^verbatim>\<open>{...v}\<close>: the own properties of a value. An array and a string give their indices;
  \<^verbatim>\<open>undefined\<close>, \<^verbatim>\<open>null\<close>, numbers and booleans give none.
\<close>

fun spread :: "jsval \<Rightarrow> (string \<times> jsval) list" where
  "spread (JObj kvs) = kvs"
| "spread (JArr xs) = zip (map showNat [0 ..< length xs]) xs"
| "spread (JStr s) = zip (map showNat [0 ..< length s]) (map (\<lambda>c. JStr [c]) s)"
| "spread v = []"

text \<open>\<^verbatim>\<open>typeof v === 'object'\<close>, which holds of \<^verbatim>\<open>null\<close> and of arrays too.\<close>

fun typeofObject :: "jsval \<Rightarrow> bool" where
  "typeofObject JNull = True"
| "typeofObject (JArr xs) = True"
| "typeofObject (JObj kvs) = True"
| "typeofObject v = False"

definition objectKeys :: "jsval \<Rightarrow> string list" where
  "objectKeys v = map fst (spread v)"

definition initialAdapterState :: jsval where
  "initialAdapterState = JObj [(''ids'', JArr []), (''entities'', JObj [])]"

text \<open>
  \<^verbatim>\<open>file?.audioSrc?.startsWith('blob:')\<close>. A nullish \<^verbatim>\<open>audioSrc\<close> gives \<^verbatim>\<open>undefined\<close>,
  which is falsy; an \<^verbatim>\<open>audioSrc\<close> that is no string has no \<^verbatim>\<open>startsWith\<close>, and the call
  throws.
\<close>

definition isBlobFile :: "jsval \<Rightarrow> jserror + bool" where
  "isBlobFile file =
     (case optGet file ''audioSrc'' of
        JUndefined \<Rightarrow> Inr False
      | JNull \<Rightarrow> Inr False
      | JStr s \<Rightarrow> Inr (startsWith s ''blob:'')
      | _ \<Rightarrow> Inl TypeError)"

text \<open>The \<^verbatim>\<open>forEach\<close> over the keys of \<^verbatim>\<open>cleanedEntities\<close>.\<close>

fun cleanEntities :: "(string \<times> jsval) list \<Rightarrow> jserror + (string \<times> jsval) list" where
  "cleanEntities [] = Inr []"
| "cleanEntities ((key, file) # rest) =
     (case isBlobFile file of
        Inl e \<Rightarrow> Inl e
      | Inr blob \<Rightarrow>
          (case cleanEntities rest of
             Inl e \<Rightarrow> Inl e
           | Inr cleaned \<Rightarrow>
               Inr ((key, if blob then JObj (objPut ''audioSrc'' (JStr []) (spread file))
                          else file) # cleaned)))"

definition filesTransform_in :: "jsval \<Rightarrow> jserror + jsval" where
  "filesTransform_in inboundState =
     (if truthy (optGet (optGet inboundState ''files'') ''entities'')
      then (case cleanEntities (spread (optGet (optGet inboundState ''files'') ''entities'')) of
              Inl e \<Rightarrow> Inl e
            | Inr cleanedEntities \<Rightarrow>
                Inr (JObj (objPut ''files''
                       (JObj (objPut ''entities'' (JObj cleanedEntities)
                          (spread (optGet inboundState ''files''))))
                       (spread inboundState))))
      else Inr inboundState)"

definition filesTransform_out :: "jsval \<Rightarrow> jserror + jsval" where
  "filesTransform_out outboundState =
     (if \<not> truthy outboundState
      then Inr (JObj (objPut ''files'' initialAdapterState (spread outboundState)))
      else
        (case getProp outboundState ''files'' of
           Inl e \<Rightarrow> Inl e
         | Inr filesState \<Rightarrow>
             if \<not> truthy filesState
             then Inr (JObj (objPut ''files'' initialAdapterState (spread outboundState)))
             else
               (case getProp filesState ''ids'' of
                  Inl e \<Rightarrow> Inl e
                | Inr idsValue \<Rightarrow>
                    (case getProp filesState ''entities'' of
                       Inl e \<Rightarrow> Inl e
                     | Inr entitiesValue \<Rightarrow>
                         if \<not> truthy idsValue \<or> \<not> truthy entitiesValue \<or> \<not> isArray idsValue
                         then
                           (if truthy entitiesValue \<and> typeofObject entitiesValue
                            then Inr (JObj (objPut ''files''
                                   (JObj (objPut ''entities'' entitiesValue
                                      (objPut ''ids'' (JArr (map JStr (objectKeys entitiesValue)))
                                         (spread filesState))))
                                   (spread outboundState)))
                            else Inr (JObj (objPut ''files'' initialAdapterState
                                   (spread outboundState))))
                         else Inr outboundState))))"

text \<open>\<^verbatim>\<open>filesPersistConfig.migrate\<close>: \<open>Inr\<close> is the state the promise resolves to.\<close>

definition migrate :: "jsval \<Rightarrow> jserror + jsval" where
  "migrate state =
     (if truthy state \<and> typeofObject state
      then (case getProp state ''files'' of
              Inl e \<Rightarrow> Inl e
            | Inr filesValue \<Rightarrow>
                if truthy filesValue
                then (case getProp filesValue ''ids'' of
                        Inl e \<Rightarrow> Inl e
                      | Inr idsValue \<Rightarrow>
                          (case getProp filesValue ''entities'' of
                             Inl e \<Rightarrow> Inl e
                           | Inr entitiesValue \<Rightarrow>
                               if \<not> truthy idsValue \<or> \<not> truthy entitiesValue
                               then Inr (JObj (objPut ''files'' initialAdapterState (spread state)))
                               else Inr state))
                else Inr state)
      else Inr state)"

text \<open>A well-formed collection: \<^verbatim>\<open>ids\<close> is an array and \<^verbatim>\<open>entities\<close> is an object.\<close>

fun isPlainObject :: "jsval \<Rightarrow> bool" where
  "isPlainObject (JObj kvs) = True"
| "isPlainObject v = False"

definition wellFormedCollection :: "jsval \<Rightarrow> bool" where
  "wellFormedCollection v =
     (isArray (optGet v ''ids'') \<and> isPlainObject (optGet v ''entities''))"

text \<open>
  Of a stored record: its \<^verbatim>\<open>audioSrc\<close> is a string or is missing, as the type
  \<^verbatim>\<open>ProcessedFile\<close> says; its \<^verbatim>\<open>audioSrc\<close> is a transient handle, a string that starts
  with \<^verbatim>\<open>blob:\<close>.
\<close>

definition audioSrcTyped :: "jsval \<Rightarrow> bool" where
  "audioSrcTyped file =
     (case optGet file ''audioSrc'' of
        JUndefined \<Rightarrow> True | JNull \<Rightarrow> True | JStr s \<Rightarrow> True | _ \<Rightarrow> False)"

definition transientHandle :: "jsval \<Rightarrow> bool" where
  "transientHandle file =
     (case optGet file ''audioSrc'' of JStr s \<Rightarrow> startsWith s ''blob:'' | _ \<Rightarrow> False)"

text \<open>
  The test of \<^verbatim>\<open>filesTransform.out\<close> for a collection without the structure of the
  entity adapter.
\<close>

definition lacksStructure :: "jsval \<Rightarrow> bool" where
  "lacksStructure filesState =
     (\<not> truthy (optGet filesState ''ids'') \<or> \<not> truthy (optGet filesState ''entities'')
      \<or> \<not> isArray (optGet filesState ''ids''))"

section \<open>Persistence of the files slice (redux-persist with filesPersistConfig)\<close>

text \<open>
  \<^verbatim>\<open>persistReducer(filesPersistConfig, filesReducer)\<close> stores the state of the slice key by
  key: the transforms get the value under each key that the blacklist does not name, not the
  state as a whole. On start the stored value of each key is given to \<^verbatim>\<open>out\<close>, and the
  state restored in this way is given to \<^verbatim>\<open>migrate\<close>.
\<close>

definition filesBlacklist :: "string list" where
  "filesBlacklist = [''isReadingFiles'', ''isTranscribing'', ''isDownloading'',
     ''isRestoringAudio'', ''transcriptionProgress'', ''error'']"

fun transformEach ::
  "(jsval \<Rightarrow> jserror + jsval) \<Rightarrow> (string \<times> jsval) list \<Rightarrow> jserror + (string \<times> jsval) list" where
  "transformEach f [] = Inr []"
| "transformEach f ((key, subState) # rest) =
     (case f subState of
        Inl e \<Rightarrow> Inl e
      | Inr endState \<Rightarrow>
          (case transformEach f rest of
             Inl e \<Rightarrow> Inl e
           | Inr endStates \<Rightarrow> Inr ((key, endState) # endStates)))"

text \<open>What is written to the store for a state of the slice.\<close>

definition persistFiles :: "jsval \<Rightarrow> jserror + (string \<times> jsval) list" where
  "persistFiles state =
     transformEach filesTransform_in
       (filter (\<lambda>(key, subState). key \<notin> set filesBlacklist) (spread state))"

text \<open>The state restored from what the store holds.\<close>

definition restoreFiles :: "(string \<times> jsval) list \<Rightarrow> jserror + jsval" where
  "restoreFiles stored =
     (case transformEach filesTransform_out stored of
        Inl e \<Rightarrow> Inl e
      | Inr restored \<Rightarrow> migrate (JObj restored))"

section \<open>Properties of the voice list\<close>

lemma strings_of_JStr:
  "list_all isString (map JStr xs)" "map strOf (map JStr xs) = xs"
  "filter isString (map JStr xs) = map JStr xs"
  by (induction xs) simp_all

lemma strOf_JStr: "strOf \<circ> JStr = id"
  by (simp add: fun_eq_iff)

lemma ids_of_records:
  "list_all (\<lambda>v. isString (optGet v ''id''))
     (map (\<lambda>(x, extra). JObj ((''id'', JStr x) # extra)) recs)"
  "map (\<lambda>v. strOf (optGet v ''id'')) (map (\<lambda>(x, extra). JObj ((''id'', JStr x) # extra)) recs)
     = map fst recs"
  "recs \<noteq> [] \<Longrightarrow>
   \<not> list_all isString (map (\<lambda>(x, extra). JObj ((''id'', JStr x) # extra)) recs)"
  by (induction recs) auto

text \<open>
  C4. The three documented response shapes of the voice service normalize to the
  identifier list of the response, whatever the identifiers \<open>xs\<close> are: a bare array of
  identifiers; an object that wraps such an array under \<^verbatim>\<open>voices\<close> (next to any other
  properties); an object that wraps under \<^verbatim>\<open>voices\<close> an array of records, each with its
  identifier under \<^verbatim>\<open>id\<close> (next to any other properties). For the identifiers \<^verbatim>\<open>x\<close> and
  \<^verbatim>\<open>y\<close> each of the three gives \<^verbatim>\<open>["x","y"]\<close>.
\<close>

theorem fetchAvailableVoices_three_shapes:
  "fetchAvailableVoices (VoicesResponse True code reason (Inr (JArr (map JStr xs)))) = Inr xs
   \<and> fetchAvailableVoices (VoicesResponse True code reason
        (Inr (JObj ((''voices'', JArr (map JStr xs)) # others)))) = Inr xs
   \<and> fetchAvailableVoices (VoicesResponse True code reason
        (Inr (JObj ((''voices'',
           JArr (map (\<lambda>(x, extra). JObj ((''id'', JStr x) # extra)) recs)) # others))))
       = Inr (map fst recs)
   \<and> fetchAvailableVoices (VoicesResponse True 200 ''OK''
        (Inr (JArr [JStr ''x'', JStr ''y'']))) = Inr [''x'', ''y'']
   \<and> fetchAvailableVoices (VoicesResponse True 200 ''OK''
        (Inr (JObj [(''voices'', JArr [JStr ''x'', JStr ''y''])]))) = Inr [''x'', ''y'']
   \<and> fetchAvailableVoices (VoicesResponse True 200 ''OK''
        (Inr (JObj [(''voices'', JArr [JObj [(''id'', JStr ''x'')], JObj [(''id'', JStr ''y'')]])])))
       = Inr [''x'', ''y'']"
proof -
  have one: "fetchAvailableVoices (VoicesResponse True code reason (Inr (JArr (map JStr xs))))
      = Inr xs"
    by (simp add: fetchAvailableVoices_def tryFetchVoices_def parseVoices_def strings_of_JStr
        strOf_JStr)
  have two: "fetchAvailableVoices (VoicesResponse True code reason
        (Inr (JObj ((''voices'', JArr (map JStr xs)) # others)))) = Inr xs"
    by (simp add: fetchAvailableVoices_def tryFetchVoices_def parseVoices_def everyString_def
        strings_of_JStr strOf_JStr)
  have three: "fetchAvailableVoices (VoicesResponse True code reason
        (Inr (JObj ((''voices'',
           JArr (map (\<lambda>(x, extra). JObj ((''id'', JStr x) # extra)) recs)) # others))))
       = Inr (map fst recs)"
  proof (cases "recs = []")
    case True
    then show ?thesis
      by (simp add: fetchAvailableVoices_def tryFetchVoices_def parseVoices_def everyString_def)
  next
    case False
    have v: "optGet (JObj ((''voices'', V) # others)) ''voices'' = V" for V
      by simp
    show ?thesis
      by (simp add: fetchAvailableVoices_def tryFetchVoices_def parseVoices_def everyString_def
          everyIdString_def v ids_of_records(1,2) ids_of_records(3) [OF False]
          del: optGet.simps map_map)
  qed
  have literal: "fetchAvailableVoices (VoicesResponse True 200 ''OK''
        (Inr (JArr [JStr ''x'', JStr ''y'']))) = Inr [''x'', ''y'']"
    "fetchAvailableVoices (VoicesResponse True 200 ''OK''
        (Inr (JObj [(''voices'', JArr [JStr ''x'', JStr ''y''])]))) = Inr [''x'', ''y'']"
    "fetchAvailableVoices (VoicesResponse True 200 ''OK''
        (Inr (JObj [(''voices'', JArr [JObj [(''id'', JStr ''x'')], JObj [(''id'', JStr ''y'')]])])))
       = Inr [''x'', ''y'']"
    by (simp_all add: fetchAvailableVoices_def tryFetchVoices_def parseVoices_def
        everyString_def everyIdString_def)
  from one two three literal show ?thesis by simp
qed

lemma fetchAvailableVoices_caught:
  "tryFetchVoices r = Inl e \<Longrightarrow> fetchAvailableVoices r = Inr fallbackVoices"
  by (simp add: fetchAvailableVoices_def)

lemma fetchAvailableVoices_resolves: "\<exists>voices. fetchAvailableVoices r = Inr voices"
  by (simp add: fetchAvailableVoices_def split: sum.splits)

text \<open>
  C5, as the claim states it: when the service is unreachable the operation fails. It does
  not: the \<^verbatim>\<open>catch\<close> of \<^verbatim>\<open>fetchAvailableVoices\<close> turns the failure into the hardcoded
  list, and the promise resolves.
\<close>

theorem fetchAvailableVoices_unreachable_resolves:
  "fetchAvailableVoices (VoicesFetchThrows ''Failed to fetch'') = Inr [''am_michael'', ''af_heart'']
   \<and> \<not> isl (fetchAvailableVoices (VoicesFetchThrows ''Failed to fetch''))"
  by (simp add: fetchAvailableVoices_def tryFetchVoices_def fallbackVoices_def)

text \<open>
  C5, amended. \<^verbatim>\<open>fetchAvailableVoices\<close> never rejects. When \<^verbatim>\<open>fetch\<close> throws, when the
  status is not 2xx, when the body is no JSON, and when no shape matcher recognizes the body,
  it resolves to the hardcoded list \<^verbatim>\<open>['am_michael', 'af_heart']\<close> itself; its caller, the
  \<^verbatim>\<open>loadVoices\<close> thunk, then dispatches \<^verbatim>\<open>fulfilled\<close> with that list and never
  \<^verbatim>\<open>rejected\<close>.
\<close>

theorem fetchAvailableVoices_substitutes_fallback:
  "(\<exists>voices. fetchAvailableVoices r = Inr voices
       \<and> loadVoices r = [LoadVoicesPending, LoadVoicesFulfilled voices])
   \<and> fetchAvailableVoices (VoicesFetchThrows msg) = Inr [''am_michael'', ''af_heart'']
   \<and> fetchAvailableVoices (VoicesResponse False code reason body)
       = Inr [''am_michael'', ''af_heart'']
   \<and> fetchAvailableVoices (VoicesResponse True code reason (Inl parseError))
       = Inr [''am_michael'', ''af_heart'']
   \<and> (parseVoices data = Inl e \<longrightarrow>
        fetchAvailableVoices (VoicesResponse True code reason (Inr data))
          = Inr [''am_michael'', ''af_heart'']
        \<and> loadVoices (VoicesResponse True code reason (Inr data))
          = [LoadVoicesPending, LoadVoicesFulfilled [''am_michael'', ''af_heart'']])"
proof -
  have resolves: "\<exists>voices. fetchAvailableVoices r = Inr voices
      \<and> loadVoices r = [LoadVoicesPending, LoadVoicesFulfilled voices]"
    using fetchAvailableVoices_resolves [of r] by (auto simp: loadVoices_def)
  have throws: "fetchAvailableVoices (VoicesFetchThrows msg) = Inr [''am_michael'', ''af_heart'']"
    by (simp add: fetchAvailableVoices_def tryFetchVoices_def fallbackVoices_def)
  have not_ok: "fetchAvailableVoices (VoicesResponse False code reason body)
      = Inr [''am_michael'', ''af_heart'']"
    by (simp add: fetchAvailableVoices_def tryFetchVoices_def fallbackVoices_def)
  have no_json: "fetchAvailableVoices (VoicesResponse True code reason (Inl parseError))
      = Inr [''am_michael'', ''af_heart'']"
    by (simp add: fetchAvailableVoices_def tryFetchVoices_def fallbackVoices_def)
  have unknown: "fetchAvailableVoices (VoicesResponse True code reason (Inr data))
        = Inr [''am_michael'', ''af_heart'']
      \<and> loadVoices (VoicesResponse True code reason (Inr data))
        = [LoadVoicesPending, LoadVoicesFulfilled [''am_michael'', ''af_heart'']]"
    if "parseVoices data = Inl e"
    using that
    by (simp add: loadVoices_def fetchAvailableVoices_def tryFetchVoices_def fallbackVoices_def)
  from resolves throws not_ok no_json unknown show ?thesis by blast
qed

theorem fetchAvailableVoices_substitutes_fallback_witness:
  "parseVoices (JObj [(''count'', JNum 2)])
     = Inl (ErrorMsg ''Unexpected format for available voices response.'')
   \<and> fetchAvailableVoices (VoicesResponse True 200 ''OK'' (Inr (JObj [(''count'', JNum 2)])))
     = Inr [''am_michael'', ''af_heart'']
   \<and> loadVoices (VoicesResponse True 200 ''OK'' (Inr (JObj [(''count'', JNum 2)])))
     = [LoadVoicesPending, LoadVoicesFulfilled [''am_michael'', ''af_heart'']]"
proof -
  have unknown: "parseVoices (JObj [(''count'', JNum 2)])
      = Inl (ErrorMsg ''Unexpected format for available voices response.'')"
    by (simp add: parseVoices_def scanVoices_def)
  with fetchAvailableVoices_substitutes_fallback
    [of "VoicesFetchThrows ''Failed to fetch''" "''Failed to fetch''" 200 "''OK''" "Inr JNull" "''Unexpected token''"
        "JObj [(''count'', JNum 2)]"
        "ErrorMsg ''Unexpected format for available voices response.''"]
  show ?thesis by simp
qed

section \<open>Properties of the settings slice\<close>

lemma arrayFromSet_foldl:
  "distinct acc \<Longrightarrow>
   distinct (foldl (\<lambda>acc x. if x \<in> set acc then acc else acc @ [x]) acc xs)
   \<and> set (foldl (\<lambda>acc x. if x \<in> set acc then acc else acc @ [x]) acc xs) = set acc \<union> set xs"
  by (induction xs arbitrary: acc) auto

lemma distinct_arrayFromSet: "distinct (arrayFromSet xs)"
  using arrayFromSet_foldl [of "[]" xs] by (simp add: arrayFromSet_def)

lemma set_arrayFromSet: "set (arrayFromSet xs) = set xs"
  using arrayFromSet_foldl [of "[]" xs] by (simp add: arrayFromSet_def)

text \<open>
  C10. After \<^verbatim>\<open>loadVoices\<close> has settled, from any state of the settings and whatever the
  voice service does, the available voices hold \<^verbatim>\<open>am_michael\<close>, have no duplicates, and
  the selected voice is one of them. The operation settles by \<^verbatim>\<open>fulfilled\<close>, never by
  \<^verbatim>\<open>rejected\<close>; the \<^verbatim>\<open>fulfilled\<close> transition establishes the three properties for any list
  of voices, the empty one too. The \<^verbatim>\<open>rejected\<close> transition gives available voices that
  hold \<^verbatim>\<open>am_michael\<close> and the selected voice, and that have no duplicates when they had
  none before.
\<close>

theorem loadVoices_settled_invariant:
  "voicesInvariant (foldl settingsReducer s (loadVoices r))
   \<and> LoadVoicesRejected \<notin> set (loadVoices r)
   \<and> voicesInvariant (settingsReducer s (LoadVoicesFulfilled payload))
   \<and> ''am_michael'' \<in> set (availableVoices (settingsReducer s LoadVoicesRejected))
   \<and> selectedVoice (settingsReducer s LoadVoicesRejected)
       \<in> set (availableVoices (settingsReducer s LoadVoicesRejected))
   \<and> (distinct (availableVoices s) \<longrightarrow> voicesInvariant (settingsReducer s LoadVoicesRejected))"
proof -
  have settled: "voicesInvariant (foldl settingsReducer s (loadVoices r))
      \<and> LoadVoicesRejected \<notin> set (loadVoices r)"
    by (cases "fetchAvailableVoices r")
       (auto simp: loadVoices_def fetchAvailableVoices_def voicesInvariant_def Let_def
         distinct_arrayFromSet set_arrayFromSet split: sum.splits)
  have transitions: "voicesInvariant (settingsReducer s (LoadVoicesFulfilled payload))
      \<and> ''am_michael'' \<in> set (availableVoices (settingsReducer s LoadVoicesRejected))
      \<and> selectedVoice (settingsReducer s LoadVoicesRejected)
          \<in> set (availableVoices (settingsReducer s LoadVoicesRejected))
      \<and> (distinct (availableVoices s) \<longrightarrow> voicesInvariant (settingsReducer s LoadVoicesRejected))"
    by (simp add: voicesInvariant_def Let_def distinct_arrayFromSet set_arrayFromSet)
  from settled transitions show ?thesis by simp
qed

theorem loadVoices_settled_invariant_witness:
  "distinct (availableVoices initialSettings)
   \<and> voicesInvariant (settingsReducer initialSettings LoadVoicesRejected)
   \<and> voicesInvariant (settingsReducer initialSettings (LoadVoicesFulfilled []))
   \<and> voicesInvariant (foldl settingsReducer initialSettings
        (loadVoices (VoicesFetchThrows ''Failed to fetch'')))
   \<and> voicesInvariant (foldl settingsReducer
        (initialSettings\<lparr>availableVoices := [''af_heart'', ''af_heart''],
           selectedVoice := ''af_heart''\<rparr>)
        (loadVoices (VoicesResponse True 200 ''OK'' (Inr (JArr [])))))"
  using loadVoices_settled_invariant [of initialSettings "VoicesFetchThrows ''Failed to fetch''" "[]"]
    loadVoices_settled_invariant
      [of "initialSettings\<lparr>availableVoices := [''af_heart'', ''af_heart''],
             selectedVoice := ''af_heart''\<rparr>"
          "VoicesResponse True 200 ''OK'' (Inr (JArr []))" "[]"]
  by (simp add: initialSettings_def)

section \<open>Properties of speech synthesis\<close>

lemma trim_blank: "list_all isWhiteSpace s \<Longrightarrow> trim s = []"
proof -
  assume "list_all isWhiteSpace s"
  then have h: "dropWhile isWhiteSpace s = []" by (simp add: list_all_iff)
  show ?thesis by (simp only: trim_def h rev.simps(1) dropWhile.simps(1))
qed

lemma transcribeText_blank:
  "list_all isWhiteSpace text \<Longrightarrow>
   transcribeText fetch text fileName v sp
     = ([], Inl (''Cannot transcribe empty text for '' @ fileName @ ''.''))"
  by (simp add: transcribeText_def trim_blank)

lemma trim_nonblank: "\<not> list_all isWhiteSpace s \<Longrightarrow> trim s \<noteq> []"
proof -
  assume "\<not> list_all isWhiteSpace s"
  then have ne: "dropWhile isWhiteSpace s \<noteq> []" by (simp add: list_all_iff)
  then have "\<not> isWhiteSpace (hd (dropWhile isWhiteSpace s))" by (rule hd_dropWhile)
  moreover from ne have "hd (dropWhile isWhiteSpace s) \<in> set (rev (dropWhile isWhiteSpace s))"
    by simp
  ultimately have "dropWhile isWhiteSpace (rev (dropWhile isWhiteSpace s)) \<noteq> []"
    unfolding dropWhile_eq_Nil_conv by blast
  then show ?thesis by (simp add: trim_def)
qed

lemma transcribeText_nonblank_sends:
  "\<not> list_all isWhiteSpace text \<Longrightarrow>
   length (fst (transcribeText fetch text fileName v sp)) = 1"
  by (auto simp: transcribeText_def Let_def dest: trim_nonblank)

text \<open>
  C3. For a text that is empty or holds white space only, \<^verbatim>\<open>transcribeText\<close> throws the
  error \<^verbatim>\<open>Cannot transcribe empty text for <fileName>.\<close> and sends no request; a
  transcription attempt for a record with such a content is rejected with that message
  without any request.
\<close>

theorem transcribeText_empty_input:
  "list_all isWhiteSpace text \<longrightarrow>
     transcribeText fetch text fileName v sp
       = ([], Inl (''Cannot transcribe empty text for '' @ fileName @ ''.''))
     \<and> (content fl = text \<longrightarrow>
          filter isRequest (fst (transcribeFile fetch fl v sp)) = []
          \<and> snd (transcribeFile fetch fl v sp)
              = Inl (''Cannot transcribe empty text for '' @ name fl @ ''.''))"
  by (simp add: transcribeText_blank transcribeFile_def)

theorem transcribeText_empty_input_witness:
  "list_all isWhiteSpace []
   \<and> list_all isWhiteSpace [0x20, 0x09, 0x0A, 0xA0, 0x2003, 0x2028, 0x3000, 0xFEFF]
   \<and> transcribeText (\<lambda>r. HttpOk (Some ''audio/mpeg'') None (Inr ''blob:1'')) [] ''a.txt''
        ''am_michael'' 1
       = ([], Inl ''Cannot transcribe empty text for a.txt.'')
   \<and> transcribeText (\<lambda>r. HttpOk (Some ''audio/mpeg'') None (Inr ''blob:1''))
        [0x20, 0x09, 0x0A, 0xA0, 0x2003, 0x2028, 0x3000, 0xFEFF] ''a.txt'' ''am_michael'' 1
       = ([], Inl ''Cannot transcribe empty text for a.txt.'')
   \<and> fst (transcribeText (\<lambda>r. HttpOk (Some ''audio/mpeg'') None (Inr ''blob:1''))
        (codeUnits ''hi'') ''a.txt'' ''am_michael'' 1) \<noteq> []"
proof -
  have blank: "list_all isWhiteSpace []"
    "list_all isWhiteSpace [0x20, 0x09, 0x0A, 0xA0, 0x2003, 0x2028, 0x3000, 0xFEFF]"
    by (simp_all add: isWhiteSpace_def)
  have sent: "fst (transcribeText (\<lambda>r. HttpOk (Some ''audio/mpeg'') None (Inr ''blob:1''))
      (codeUnits ''hi'') ''a.txt'' ''am_michael'' 1) \<noteq> []"
    by (simp add: transcribeText_def trim_def isWhiteSpace_def codeUnits_def)
  from blank sent
    transcribeText_empty_input [of "[]"
      "\<lambda>r. HttpOk (Some ''audio/mpeg'') None (Inr ''blob:1'')" "''a.txt''" "''am_michael''" 1]
    transcribeText_empty_input
      [of "[0x20, 0x09, 0x0A, 0xA0, 0x2003, 0x2028, 0x3000, 0xFEFF]"
      "\<lambda>r. HttpOk (Some ''audio/mpeg'') None (Inr ''blob:1'')" "''a.txt''" "''am_michael''" 1]
  show ?thesis by simp
qed

section \<open>Properties of the files slice and its thunks\<close>

lemma entities_resortEntities [simp]: "entities (resortEntities lc st) = entities st"
  by (simp add: resortEntities_def)

lemma map_of_assign:
  "map_of (map (\<lambda>(k', e). if k' = k then (k', f e) else (k', e)) kvs) x
     = (if x = k then map_option f (map_of kvs x) else map_of kvs x)"
  by (induction kvs) auto

lemma selectById_updateOne:
  "selectById (updateOne lc st k ch) x
     = (if x = k then map_option (\<lambda>e. assign e ch) (selectById st x) else selectById st x)"
proof (cases "k \<in> set (map fst (entities st))")
  case True
  then show ?thesis by (simp add: updateOne_def selectById_def map_of_assign)
next
  case False
  then have "map_of (entities st) k = None" by (simp add: map_of_eq_None_iff)
  with False show ?thesis by (simp add: updateOne_def selectById_def)
qed

lemma selectById_TranscribeFilePending:
  "selectById (files (filesReducer lc s (TranscribeFilePending file))) x
     = (if x = file_id file
        then map_option (\<lambda>e. e\<lparr>status := Processing, error := None\<rparr>) (selectById (files s) x)
        else selectById (files s) x)"
  by (simp add: selectById_updateOne assign_def)

lemma selectById_TranscribeFileFulfilled:
  "selectById (files (filesReducer lc s (TranscribeFileFulfilled k src))) x
     = (if x = k
        then map_option (\<lambda>e. e\<lparr>status := Transcribed, audioSrc := Some src, error := None\<rparr>)
               (selectById (files s) x)
        else selectById (files s) x)"
  by (simp add: selectById_updateOne assign_def Let_def)

lemma selectById_TranscribeFileRejected:
  "selectById (files (filesReducer lc s (TranscribeFileRejected file p m))) x
     = (if x = file_id file
        then map_option (\<lambda>e. e\<lparr>status := Error,
                 error := Some (orElse p (orElse m ''Transcription failed''))\<rparr>)
               (selectById (files s) x)
        else selectById (files s) x)"
  by (simp add: selectById_updateOne assign_def Let_def)

lemma selectById_RefetchAudioForFilePending:
  "selectById (files (filesReducer lc s (RefetchAudioForFilePending file))) x
     = (if x = file_id file
        then map_option (\<lambda>e. e\<lparr>status := Processing, error := None\<rparr>) (selectById (files s) x)
        else selectById (files s) x)"
  by (simp add: selectById_updateOne assign_def)

lemma selectById_RefetchAudioForFileFulfilled:
  "selectById (files (filesReducer lc s (RefetchAudioForFileFulfilled k src))) x
     = (if x = k
        then map_option (\<lambda>e. e\<lparr>status := Transcribed, audioSrc := Some src, error := None\<rparr>)
               (selectById (files s) x)
        else selectById (files s) x)"
  by (simp add: selectById_updateOne assign_def Let_def)

lemma selectById_RefetchAudioForFileRejected:
  "selectById (files (filesReducer lc s (RefetchAudioForFileRejected file p))) x
     = (if x = file_id file
        then map_option (\<lambda>e. e\<lparr>status := Error,
                 error := Some (orElse p ''Failed to re-fetch audio'')\<rparr>)
               (selectById (files s) x)
        else selectById (files s) x)"
  by (simp add: selectById_updateOne assign_def Let_def)

lemmas selectById_thunk_actions =
  selectById_TranscribeFilePending selectById_TranscribeFileFulfilled
  selectById_TranscribeFileRejected selectById_RefetchAudioForFilePending
  selectById_RefetchAudioForFileFulfilled selectById_RefetchAudioForFileRejected

lemma transcribeText_shape:
  "(\<exists>m. transcribeText fetch text fileName v sp = ([], Inl m))
   \<or> (\<exists>req r. transcribeText fetch text fileName v sp = ([req], r))"
  by (simp add: transcribeText_def Let_def)

lemma attempt_transcribeFile:
  assumes "selectById (files s) (file_id file) = Some stored"
  shows "processingWhenSent lc s (fst (transcribeFile fetch file v sp)) (file_id file)
     \<and> neverReadyAfterDispatch lc s (fst (transcribeFile fetch file v sp)) (file_id file)
     \<and> noSkipOfProcessing lc s (fst (transcribeFile fetch file v sp)) (file_id file)"
proof -
  from transcribeText_shape [of fetch "content file" "name file" v sp]
  consider m where "transcribeText fetch (content file) (name file) v sp = ([], Inl m)"
    | req r where "transcribeText fetch (content file) (name file) v sp = ([req], r)"
    by blast
  then show ?thesis
  proof cases
    case 1
    with assms show ?thesis
      by (simp add: transcribeFile_def processingWhenSent_def neverReadyAfterDispatch_def
          noSkipOfProcessing_def statusOf_def selectById_thunk_actions
          del: filesReducer.simps)
  next
    case 2
    with assms show ?thesis
      by (cases r) (simp_all add: transcribeFile_def processingWhenSent_def
          neverReadyAfterDispatch_def noSkipOfProcessing_def statusOf_def
          selectById_thunk_actions del: filesReducer.simps)
  qed
qed

lemma run_Nil [simp]: "run lc s [] = s"
  by (simp add: run_def)

lemma run_Cons [simp]: "run lc s (e # es) = run lc (step lc s e) es"
  by (simp add: run_def)

lemma run_append [simp]: "run lc s (es @ es') = run lc (run lc s es) es'"
  by (simp add: run_def)

lemma run_requests [simp]: "run lc s (map Request rs) = s"
  by (induction rs) simp_all

lemma progressUpdates_append [simp]:
  "progressUpdates (es @ es') = progressUpdates es @ progressUpdates es'"
  by (induction es rule: progressUpdates.induct) simp_all

lemma progressUpdates_requests [simp]: "progressUpdates (map Request rs) = []"
  by (induction rs) simp_all

lemma transcribeFile_succeeds:
  assumes "snd (transcribeText fetch (content f) (name f) v sp) = Inr res"
  shows "snd (transcribeFile fetch f v sp) = Inr (file_id f, res)"
    and "run lc s (fst (transcribeFile fetch f v sp))
         = filesReducer lc (filesReducer lc s (TranscribeFilePending f))
             (TranscribeFileFulfilled (file_id f) (resultAudioSrc res))"
    and "progressUpdates (fst (transcribeFile fetch f v sp)) = []"
  using assms
  by (cases "transcribeText fetch (content f) (name f) v sp";
      simp add: transcribeFile_def del: filesReducer.simps)+

lemma transcribeFile_fails:
  assumes "snd (transcribeText fetch (content f) (name f) v sp) = Inl msg"
  shows "snd (transcribeFile fetch f v sp) = Inl msg"
    and "run lc s (fst (transcribeFile fetch f v sp))
         = filesReducer lc (filesReducer lc s (TranscribeFilePending f))
             (TranscribeFileRejected f (Some msg) (Some ''Rejected''))"
    and "progressUpdates (fst (transcribeFile fetch f v sp)) = []"
  using assms
  by (cases "transcribeText fetch (content f) (name f) v sp";
      simp add: transcribeFile_def del: filesReducer.simps)+

lemma files_SetTranscriptionProgress [simp]:
  "files (filesReducer lc s (SetTranscriptionProgress p)) = files s"
  by simp

lemma files_TranscribeMultipleFilesPending [simp]:
  "files (filesReducer lc s TranscribeMultipleFilesPending) = files s"
  by simp

lemma files_TranscribeMultipleFilesFulfilled [simp]:
  "files (filesReducer lc s (TranscribeMultipleFilesFulfilled m n)) = files s"
  by (simp add: Let_def)

lemma progress_TranscribeMultipleFilesFulfilled [simp]:
  "transcriptionProgress (filesReducer lc s (TranscribeMultipleFilesFulfilled m n))
     = transcriptionProgress s"
  by (simp add: Let_def)

lemma progress_SetTranscriptionProgress [simp]:
  "transcriptionProgress (filesReducer lc s (SetTranscriptionProgress p)) = p"
  by simp

lemma list_all_objPut:
  "P v \<Longrightarrow> list_all P (map snd kvs) \<Longrightarrow> list_all P (map snd (objPut k v kvs))"
  by (induction kvs) auto

lemma list_all_foldl_objPut:
  "list_all P ms \<Longrightarrow> list_all P (map snd kvs) \<Longrightarrow>
   list_all P (map snd (foldl (\<lambda>es m. objPut (file_id m) m es) kvs ms))"
  by (induction ms arbitrary: kvs) (auto simp: list_all_objPut)

lemma list_all_addMany:
  assumes "list_all P payload" and "list_all P (map snd (entities st))"
  shows "list_all P (map snd (entities (addMany lc st payload)))"
proof -
  have "list_all P (filter Q payload)" for Q
    using assms(1) by (simp add: list_all_iff)
  with assms(2) show ?thesis
    by (simp add: addMany_def Let_def list_all_foldl_objPut)
qed

lemma list_all_updateOne:
  assumes "list_all P (map snd (entities st))"
    and "\<And>f. (k, f) \<in> set (entities st) \<Longrightarrow> P f \<Longrightarrow> P (assign f ch)"
  shows "list_all P (map snd (entities (updateOne lc st k ch)))"
proof -
  have "P (snd (if k' = k then (k', assign e ch) else (k', e)))"
    if "(k', e) \<in> set (entities st)" for k' e
    using that assms by (auto simp: list_all_iff)
  then have "list_all P (map snd (map (\<lambda>(k', e). if k' = k then (k', assign e ch) else (k', e))
      (entities st)))"
    by (auto simp: list_all_iff)
  with assms(1) show ?thesis by (simp add: updateOne_def)
qed

lemma allRecords_updateOne:
  assumes "allRecords P s"
    and "files s' = updateOne lc (files s) k ch"
    and "\<And>f. (k, f) \<in> set (entities (files s)) \<Longrightarrow> P f \<Longrightarrow> P (assign f ch)"
  shows "allRecords P s'"
  using list_all_updateOne [of P "files s" k ch lc] assms by (simp add: allRecords_def)

lemma files_UpdateFileStatus:
  "files (filesReducer lc s (UpdateFileStatus k st err)) = updateOne lc (files s) k
        \<lparr> statusChange = Some st, audioSrcChange = None,
          errorChange = (if st \<noteq> Error then Some None
             else (case err of Some e \<Rightarrow> (if e \<noteq> [] then Some (Some e) else None)
                   | None \<Rightarrow> None)) \<rparr>"
  by simp

lemma files_UpdateFileWithAudio:
  "files (filesReducer lc s (UpdateFileWithAudio k src)) = updateOne lc (files s) k
        \<lparr> statusChange = Some Transcribed, audioSrcChange = Some (Some src),
          errorChange = Some None \<rparr>"
  by simp

lemma files_RefetchAudioForFilePending:
  "files (filesReducer lc s (RefetchAudioForFilePending file))
     = updateOne lc (files s) (file_id file)
        \<lparr> statusChange = Some Processing, audioSrcChange = None, errorChange = Some None \<rparr>"
  by simp

lemma files_RefetchAudioForFileFulfilled:
  "files (filesReducer lc s (RefetchAudioForFileFulfilled k src)) = updateOne lc (files s) k
        \<lparr> statusChange = Some Transcribed, audioSrcChange = Some (Some src),
          errorChange = Some None \<rparr>"
  by simp

lemma files_RefetchAudioForFileRejected:
  "files (filesReducer lc s (RefetchAudioForFileRejected file p))
     = updateOne lc (files s) (file_id file)
        \<lparr> statusChange = Some Error, audioSrcChange = None,
          errorChange = Some (Some (orElse p ''Failed to re-fetch audio'')) \<rparr>"
  by simp

lemma files_TranscribeFilePending:
  "files (filesReducer lc s (TranscribeFilePending file))
     = updateOne lc (files s) (file_id file)
        \<lparr> statusChange = Some Processing, audioSrcChange = None, errorChange = Some None \<rparr>"
  by simp

lemma files_TranscribeFileFulfilled:
  "files (filesReducer lc s (TranscribeFileFulfilled k src)) = updateOne lc (files s) k
        \<lparr> statusChange = Some Transcribed, audioSrcChange = Some (Some src),
          errorChange = Some None \<rparr>"
  by (simp add: Let_def)

lemma files_TranscribeFileRejected:
  "files (filesReducer lc s (TranscribeFileRejected file p m))
     = updateOne lc (files s) (file_id file)
        \<lparr> statusChange = Some Error, audioSrcChange = None,
          errorChange = Some (Some (orElse p (orElse m ''Transcription failed''))) \<rparr>"
  by (simp add: Let_def)

lemma errorImpliesStatus_preserved:
  assumes inv: "allRecords errorImpliesStatus s"
    and new: "payloadSatisfies errorImpliesStatus a"
  shows "allRecords errorImpliesStatus (filesReducer lc s a)"
proof (cases a)
  case (AddProcessedFiles payload)
  with inv new show ?thesis
    by (simp add: allRecords_def payloadSatisfies_def list_all_addMany)
next
  case (UpdateFileStatus k st err)
  show ?thesis unfolding UpdateFileStatus
    by (rule allRecords_updateOne [OF inv files_UpdateFileStatus])
       (auto simp: errorImpliesStatus_def assign_def split: option.splits)
next
  case (UpdateFileWithAudio k src)
  show ?thesis unfolding UpdateFileWithAudio
    by (rule allRecords_updateOne [OF inv files_UpdateFileWithAudio])
       (simp add: errorImpliesStatus_def assign_def)
next
  case ClearAllFiles
  then show ?thesis by (simp add: allRecords_def removeAll_def)
next
  case (RefetchAudioForFilePending fl)
  show ?thesis unfolding RefetchAudioForFilePending
    by (rule allRecords_updateOne [OF inv files_RefetchAudioForFilePending])
       (simp add: errorImpliesStatus_def assign_def)
next
  case (RefetchAudioForFileFulfilled k src)
  show ?thesis unfolding RefetchAudioForFileFulfilled
    by (rule allRecords_updateOne [OF inv files_RefetchAudioForFileFulfilled])
       (simp add: errorImpliesStatus_def assign_def)
next
  case (RefetchAudioForFileRejected fl p)
  show ?thesis unfolding RefetchAudioForFileRejected
    by (rule allRecords_updateOne [OF inv files_RefetchAudioForFileRejected])
       (simp add: errorImpliesStatus_def assign_def)
next
  case (TranscribeFilePending fl)
  show ?thesis unfolding TranscribeFilePending
    by (rule allRecords_updateOne [OF inv files_TranscribeFilePending])
       (simp add: errorImpliesStatus_def assign_def)
next
  case (TranscribeFileFulfilled k src)
  show ?thesis unfolding TranscribeFileFulfilled
    by (rule allRecords_updateOne [OF inv files_TranscribeFileFulfilled])
       (simp add: errorImpliesStatus_def assign_def)
next
  case (TranscribeFileRejected fl p m)
  show ?thesis unfolding TranscribeFileRejected
    by (rule allRecords_updateOne [OF inv files_TranscribeFileRejected])
       (simp add: errorImpliesStatus_def assign_def)
qed (use inv in \<open>simp_all add: allRecords_def Let_def\<close>)

lemma noAudioUnderD:
  "noAudioUnder s k \<Longrightarrow> (k, f) \<in> set (entities (files s)) \<Longrightarrow> \<not> audioDefined f"
  by (auto simp: noAudioUnder_def list_all_iff)

lemma exclusive_assign_transcribed:
  "exclusive (assign f \<lparr> statusChange = Some Transcribed, audioSrcChange = Some (Some src),
       errorChange = Some None \<rparr>)"
  by (simp add: exclusive_def errorImpliesStatus_def audioImpliesStatus_def assign_def)

lemma exclusive_assign_no_audio:
  assumes "exclusive f" and "\<not> audioDefined f"
    and "st \<noteq> Error \<longrightarrow> e = Some None"
  shows "exclusive (assign f \<lparr> statusChange = Some st, audioSrcChange = None,
       errorChange = e \<rparr>)"
  using assms
  by (auto simp: exclusive_def errorImpliesStatus_def audioImpliesStatus_def assign_def
      audioDefined_def split: option.splits)

lemma exclusive_preserved:
  assumes inv: "allRecords exclusive s"
    and new: "payloadSatisfies exclusive a"
    and away: "case leavesTranscribed a of Some k \<Rightarrow> noAudioUnder s k | None \<Rightarrow> True"
  shows "allRecords exclusive (filesReducer lc s a)"
proof (cases a)
  case (AddProcessedFiles payload)
  with inv new show ?thesis
    by (simp add: allRecords_def payloadSatisfies_def list_all_addMany)
next
  case (UpdateFileStatus k st err)
  show ?thesis unfolding UpdateFileStatus
  proof (rule allRecords_updateOne [OF inv files_UpdateFileStatus])
    fix f assume f: "(k, f) \<in> set (entities (files s))" "exclusive f"
    show "exclusive (assign f \<lparr> statusChange = Some st, audioSrcChange = None,
              errorChange = (if st \<noteq> Error then Some None
                 else (case err of Some e \<Rightarrow> (if e \<noteq> [] then Some (Some e) else None)
                       | None \<Rightarrow> None)) \<rparr>)"
    proof (cases "st = Transcribed")
      case True
      with f show ?thesis
        by (simp add: exclusive_def errorImpliesStatus_def audioImpliesStatus_def assign_def
            audioDefined_def)
    next
      case False
      with away UpdateFileStatus have "noAudioUnder s k" by simp
      with f have "\<not> audioDefined f" by (auto dest: noAudioUnderD)
      with f show ?thesis by (intro exclusive_assign_no_audio) simp_all
    qed
  qed
next
  case (UpdateFileWithAudio k src)
  show ?thesis unfolding UpdateFileWithAudio
    by (rule allRecords_updateOne [OF inv files_UpdateFileWithAudio])
       (rule exclusive_assign_transcribed)
next
  case ClearAllFiles
  then show ?thesis by (simp add: allRecords_def removeAll_def)
next
  case (RefetchAudioForFilePending fl)
  with away have "noAudioUnder s (file_id fl)" by simp
  then show ?thesis unfolding RefetchAudioForFilePending
    by (intro allRecords_updateOne [OF inv files_RefetchAudioForFilePending]
          exclusive_assign_no_audio) (auto dest: noAudioUnderD)
next
  case (RefetchAudioForFileFulfilled k src)
  show ?thesis unfolding RefetchAudioForFileFulfilled
    by (rule allRecords_updateOne [OF inv files_RefetchAudioForFileFulfilled])
       (rule exclusive_assign_transcribed)
next
  case (RefetchAudioForFileRejected fl p)
  with away have "noAudioUnder s (file_id fl)" by simp
  then show ?thesis unfolding RefetchAudioForFileRejected
    by (intro allRecords_updateOne [OF inv files_RefetchAudioForFileRejected]
          exclusive_assign_no_audio) (auto dest: noAudioUnderD)
next
  case (TranscribeFilePending fl)
  with away have "noAudioUnder s (file_id fl)" by simp
  then show ?thesis unfolding TranscribeFilePending
    by (intro allRecords_updateOne [OF inv files_TranscribeFilePending]
          exclusive_assign_no_audio) (auto dest: noAudioUnderD)
next
  case (TranscribeFileFulfilled k src)
  show ?thesis unfolding TranscribeFileFulfilled
    by (rule allRecords_updateOne [OF inv files_TranscribeFileFulfilled])
       (rule exclusive_assign_transcribed)
next
  case (TranscribeFileRejected fl p m)
  with away have "noAudioUnder s (file_id fl)" by simp
  then show ?thesis unfolding TranscribeFileRejected
    by (intro allRecords_updateOne [OF inv files_TranscribeFileRejected]
          exclusive_assign_no_audio) (auto dest: noAudioUnderD)
qed (use inv in \<open>simp_all add: allRecords_def Let_def\<close>)

text \<open>
  C1, as the claim states it: every store mutation preserves the exclusion invariant. A
  record that was transcribed keeps its \<^verbatim>\<open>audioSrc\<close> when a new synthesis of it starts: the
  store below satisfies the invariant, and the \<^verbatim>\<open>pending\<close> transition of
  \<^verbatim>\<open>refetchAudioForFile\<close> leaves the record \<^verbatim>\<open>processing\<close> with a defined \<^verbatim>\<open>audioSrc\<close>; the
  \<^verbatim>\<open>rejected\<close> transition then leaves it in \<^verbatim>\<open>error\<close> with an error and the old
  \<^verbatim>\<open>audioSrc\<close>.
\<close>

theorem exclusion_broken_by_resynthesis:
  "allRecords exclusive
     (run compareUnits initialState
        [Dispatch (AddProcessedFiles
           [\<lparr> file_id = ''a'', name = ''a.txt'', content = codeUnits ''hi'', status = Ready,
              audioSrc = None, error = None \<rparr>]),
         Dispatch (TranscribeFilePending
           \<lparr> file_id = ''a'', name = ''a.txt'', content = codeUnits ''hi'', status = Ready,
             audioSrc = None, error = None \<rparr>),
         Dispatch (TranscribeFileFulfilled ''a'' ''blob:1'')])
   \<and> \<not> allRecords exclusive
     (run compareUnits initialState
        [Dispatch (AddProcessedFiles
           [\<lparr> file_id = ''a'', name = ''a.txt'', content = codeUnits ''hi'', status = Ready,
              audioSrc = None, error = None \<rparr>]),
         Dispatch (TranscribeFilePending
           \<lparr> file_id = ''a'', name = ''a.txt'', content = codeUnits ''hi'', status = Ready,
             audioSrc = None, error = None \<rparr>),
         Dispatch (TranscribeFileFulfilled ''a'' ''blob:1''),
         Dispatch (RefetchAudioForFilePending
           \<lparr> file_id = ''a'', name = ''a.txt'', content = codeUnits ''hi'', status = Transcribed,
             audioSrc = Some ''blob:1'', error = None \<rparr>)])
   \<and> selectById (files
     (run compareUnits initialState
        [Dispatch (AddProcessedFiles
           [\<lparr> file_id = ''a'', name = ''a.txt'', content = codeUnits ''hi'', status = Ready,
              audioSrc = None, error = None \<rparr>]),
         Dispatch (TranscribeFilePending
           \<lparr> file_id = ''a'', name = ''a.txt'', content = codeUnits ''hi'', status = Ready,
             audioSrc = None, error = None \<rparr>),
         Dispatch (TranscribeFileFulfilled ''a'' ''blob:1''),
         Dispatch (RefetchAudioForFilePending
           \<lparr> file_id = ''a'', name = ''a.txt'', content = codeUnits ''hi'', status = Transcribed,
             audioSrc = Some ''blob:1'', error = None \<rparr>),
         Dispatch (RefetchAudioForFileRejected
           \<lparr> file_id = ''a'', name = ''a.txt'', content = codeUnits ''hi'', status = Transcribed,
             audioSrc = Some ''blob:1'', error = None \<rparr> (Some ''Transcription failed''))])) ''a''
     = Some \<lparr> file_id = ''a'', name = ''a.txt'', content = codeUnits ''hi'', status = Error,
              audioSrc = Some ''blob:1'', error = Some ''Transcription failed'' \<rparr>"
  by (simp add: initialState_def getInitialState_def addMany_def updateOne_def
      resortEntities_def sortWith_def sortComparer_def assign_def selectById_def
      allRecords_def exclusive_def errorImpliesStatus_def audioImpliesStatus_def
      audioDefined_def stillProcessing_def orElse_def Let_def)

lemma audioSrc_updateOne:
  assumes "audioSrcChange ch = None"
  shows "map (\<lambda>(k', f). (k', audioSrc f)) (entities (updateOne lc st k ch))
     = map (\<lambda>(k', f). (k', audioSrc f)) (entities st)"
  using assms by (auto simp: updateOne_def assign_def)

lemma audioSrc_kept:
  assumes "leavesTranscribed a = Some k"
  shows "map (\<lambda>(k', f). (k', audioSrc f)) (entities (files (filesReducer lc s a)))
     = map (\<lambda>(k', f). (k', audioSrc f)) (entities (files s))"
proof (cases a)
  case (UpdateFileStatus fileId st err)
  show ?thesis unfolding UpdateFileStatus files_UpdateFileStatus
    by (rule audioSrc_updateOne) simp
next
  case (RefetchAudioForFilePending fl)
  show ?thesis unfolding RefetchAudioForFilePending files_RefetchAudioForFilePending
    by (rule audioSrc_updateOne) simp
next
  case (RefetchAudioForFileRejected fl p)
  show ?thesis unfolding RefetchAudioForFileRejected files_RefetchAudioForFileRejected
    by (rule audioSrc_updateOne) simp
next
  case (TranscribeFilePending fl)
  show ?thesis unfolding TranscribeFilePending files_TranscribeFilePending
    by (rule audioSrc_updateOne) simp
next
  case (TranscribeFileRejected fl p m)
  show ?thesis unfolding TranscribeFileRejected files_TranscribeFileRejected
    by (rule audioSrc_updateOne) simp
qed (use assms in simp_all)

text \<open>
  C1, amended. Every mutation of the store preserves that a defined \<^verbatim>\<open>error\<close> implies the
  status \<^verbatim>\<open>error\<close> (so a transcribed record has no defined error), given that the records
  \<^verbatim>\<open>addProcessedFiles\<close> brings satisfy it; hence it holds in every store reached from the
  initial one. \<^verbatim>\<open>updateFileStatus\<close> to a status other than \<^verbatim>\<open>transcribed\<close> and the
  \<^verbatim>\<open>pending\<close> and \<^verbatim>\<open>rejected\<close> transitions leave the \<^verbatim>\<open>audioSrc\<close> of every record as
  it is. So the full invariant is preserved by every mutation (given that the records
  \<^verbatim>\<open>addProcessedFiles\<close> brings satisfy it) when the mutation is none of these, or when no
  record it targets has a defined \<^verbatim>\<open>audioSrc\<close>.
\<close>

theorem exclusion_invariant_preserved:
  "(allRecords errorImpliesStatus s \<and> payloadSatisfies errorImpliesStatus a
      \<longrightarrow> allRecords errorImpliesStatus (filesReducer lc s a))
   \<and> (list_all (payloadSatisfies errorImpliesStatus) as
      \<longrightarrow> allRecords errorImpliesStatus (foldl (filesReducer lc) initialState as))
   \<and> (allRecords exclusive s \<and> payloadSatisfies exclusive a
       \<and> (case leavesTranscribed a of Some k \<Rightarrow> noAudioUnder s k | None \<Rightarrow> True)
      \<longrightarrow> allRecords exclusive (filesReducer lc s a))
   \<and> (leavesTranscribed a \<noteq> None
      \<longrightarrow> map (\<lambda>(k, f). (k, audioSrc f)) (entities (files (filesReducer lc s a)))
          = map (\<lambda>(k, f). (k, audioSrc f)) (entities (files s)))"
proof -
  have reach: "allRecords errorImpliesStatus (foldl (filesReducer lc) initialState as)"
    if "list_all (payloadSatisfies errorImpliesStatus) as"
    using that
  proof (induction as rule: rev_induct)
    case Nil
    show ?case by (simp add: allRecords_def initialState_def getInitialState_def)
  next
    case (snoc a as)
    then show ?case by (simp add: errorImpliesStatus_preserved)
  qed
  have kept: "map (\<lambda>(k, f). (k, audioSrc f)) (entities (files (filesReducer lc s a)))
      = map (\<lambda>(k, f). (k, audioSrc f)) (entities (files s))"
    if "leavesTranscribed a \<noteq> None"
    using that audioSrc_kept [of a _ lc s] by blast
  from reach kept errorImpliesStatus_preserved [of s a lc] exclusive_preserved [of s a lc]
  show ?thesis by blast
qed

theorem exclusion_invariant_preserved_witness:
  "allRecords exclusive
     (initialState\<lparr>files := \<lparr> ids = [''a''], entities =
        [(''a'', \<lparr> file_id = ''a'', name = ''a.txt'', content = codeUnits ''hi'', status = Ready,
                  audioSrc = None, error = None \<rparr>)] \<rparr>\<rparr>)
   \<and> noAudioUnder
     (initialState\<lparr>files := \<lparr> ids = [''a''], entities =
        [(''a'', \<lparr> file_id = ''a'', name = ''a.txt'', content = codeUnits ''hi'', status = Ready,
                  audioSrc = None, error = None \<rparr>)] \<rparr>\<rparr>) ''a''
   \<and> allRecords exclusive
     (filesReducer compareUnits
        (initialState\<lparr>files := \<lparr> ids = [''a''], entities =
           [(''a'', \<lparr> file_id = ''a'', name = ''a.txt'', content = codeUnits ''hi'', status = Ready,
                     audioSrc = None, error = None \<rparr>)] \<rparr>\<rparr>)
        (TranscribeFileRejected
           \<lparr> file_id = ''a'', name = ''a.txt'', content = codeUnits ''hi'', status = Ready,
             audioSrc = None, error = None \<rparr> (Some ''Transcription failed'') (Some ''Rejected'')))
   \<and> allRecords errorImpliesStatus
     (foldl (filesReducer compareUnits) initialState
        [AddProcessedFiles
           [\<lparr> file_id = ''a'', name = ''a.txt'', content = codeUnits ''hi'', status = Ready,
              audioSrc = None, error = None \<rparr>],
         UpdateFileStatus ''a'' Error (Some ''unreadable'')])"
proof -
  have inv: "allRecords exclusive
     (initialState\<lparr>files := \<lparr> ids = [''a''], entities =
        [(''a'', \<lparr> file_id = ''a'', name = ''a.txt'', content = codeUnits ''hi'', status = Ready,
                  audioSrc = None, error = None \<rparr>)] \<rparr>\<rparr>)"
    by (simp add: allRecords_def exclusive_def errorImpliesStatus_def audioImpliesStatus_def
        audioDefined_def)
  have none: "noAudioUnder
     (initialState\<lparr>files := \<lparr> ids = [''a''], entities =
        [(''a'', \<lparr> file_id = ''a'', name = ''a.txt'', content = codeUnits ''hi'', status = Ready,
                  audioSrc = None, error = None \<rparr>)] \<rparr>\<rparr>) ''a''"
    by (simp add: noAudioUnder_def audioDefined_def)
  have new: "list_all (payloadSatisfies errorImpliesStatus)
     [AddProcessedFiles
        [\<lparr> file_id = ''a'', name = ''a.txt'', content = codeUnits ''hi'', status = Ready,
           audioSrc = None, error = None \<rparr>],
      UpdateFileStatus ''a'' Error (Some ''unreadable'')]"
    by (simp add: payloadSatisfies_def errorImpliesStatus_def)
  from inv none new
    exclusion_invariant_preserved
      [of "initialState\<lparr>files := \<lparr> ids = [''a''], entities =
             [(''a'', \<lparr> file_id = ''a'', name = ''a.txt'', content = codeUnits ''hi'', status = Ready,
                       audioSrc = None, error = None \<rparr>)] \<rparr>\<rparr>"
          "TranscribeFileRejected
             \<lparr> file_id = ''a'', name = ''a.txt'', content = codeUnits ''hi'', status = Ready,
               audioSrc = None, error = None \<rparr> (Some ''Transcription failed'') (Some ''Rejected'')"
          compareUnits
          "[AddProcessedFiles
              [\<lparr> file_id = ''a'', name = ''a.txt'', content = codeUnits ''hi'', status = Ready,
                 audioSrc = None, error = None \<rparr>],
            UpdateFileStatus ''a'' Error (Some ''unreadable'')]"]
  show ?thesis by (simp add: payloadSatisfies_def del: filesReducer.simps)
qed

lemma attempted_append [simp]: "attempted (es @ es') = attempted es @ attempted es'"
  by (induction es rule: attempted.induct) simp_all

lemma attempted_requests [simp]: "attempted (map Request rs) = []"
  by (induction rs) simp_all

lemma attempted_transcribeFile [simp]: "attempted (fst (transcribeFile fetch f v sp)) = [f]"
  by (cases "transcribeText fetch (content f) (name f) v sp"; cases "snd (transcribeText fetch (content f) (name f) v sp)")
     (simp_all add: transcribeFile_def)

lemma transcribeLoop_attempts_all:
  "attempted (fst (transcribeLoop env v sp len i fs c)) = fs
   \<and> fst (snd (transcribeLoop env v sp len i fs c)) + snd (snd (transcribeLoop env v sp len i fs c))
       = fst c + snd c + length fs"
proof (induction fs arbitrary: i c)
  case Nil
  show ?case by (cases c) simp
next
  case (Cons f rest)
  show ?case
    by (cases c) (simp add: Let_def split_beta Cons.IH split: sum.splits)
qed

lemma transcribeMultipleFiles_attempts_all:
  "attempted (fst (transcribeMultipleFiles env fs v sp)) = fs
   \<and> (case snd (transcribeMultipleFiles env fs v sp) of
         Inr (successCount, errorCount) \<Rightarrow> successCount + errorCount = length fs
       | Inl rejected \<Rightarrow> False)"
  using transcribeLoop_attempts_all [of env v sp "length fs" 0 fs "(0, 0)"]
  by (simp add: transcribeMultipleFiles_def split_beta)

text \<open>
  C2. A batch over the two records \<open>a\<close> and \<open>b\<close> of the store, where the synthesis of
  \<open>a\<close> succeeds and the synthesis of \<open>b\<close> fails: the batch returns one success and one
  error, \<open>a\<close> ends \<^verbatim>\<open>transcribed\<close> and \<open>b\<close> ends in \<^verbatim>\<open>error\<close>, the progress counter goes
  through 0 of 2, 1 of 2, 2 of 2 and is then reset to 0 of 0, which is its value in the
  final state. Both records are attempted, and the failure of \<open>b\<close> leaves \<open>a\<close>
  transcribed.
\<close>

theorem transcribeMultipleFiles_success_and_failure:
  assumes ids: "file_id a \<noteq> file_id b"
    and a: "selectById (files s) (file_id a) = Some a" "status a = Ready"
    and b: "selectById (files s) (file_id b) = Some b" "status b = Ready"
    and ok: "snd (transcribeText (env 0) (content a) (name a) v sp) = Inr res"
    and ko: "snd (transcribeText (env 1) (content b) (name b) v sp) = Inl msg"
  shows "snd (transcribeMultipleFiles env [a, b] v sp) = Inr (1, 1)
    \<and> attempted (fst (transcribeMultipleFiles env [a, b] v sp)) = [a, b]
    \<and> statusOf (run lc s (fst (transcribeMultipleFiles env [a, b] v sp))) (file_id a)
        = Some Transcribed
    \<and> statusOf (run lc s (fst (transcribeMultipleFiles env [a, b] v sp))) (file_id b)
        = Some Error
    \<and> progressUpdates (fst (transcribeMultipleFiles env [a, b] v sp))
        = [\<lparr> current = 0, total = 2, currentFileName = None \<rparr>,
           \<lparr> current = 1, total = 2, currentFileName = Some (name a) \<rparr>,
           \<lparr> current = 2, total = 2, currentFileName = Some (name b) \<rparr>,
           \<lparr> current = 0, total = 0, currentFileName = None \<rparr>]
    \<and> transcriptionProgress (run lc s (fst (transcribeMultipleFiles env [a, b] v sp)))
        = \<lparr> current = 0, total = 0, currentFileName = None \<rparr>"
proof -
  note A = transcribeFile_succeeds [OF ok]
  from ko have ko': "snd (transcribeText (env (Suc 0)) (content b) (name b) v sp) = Inl msg"
    by simp
  note B = transcribeFile_fails [OF ko']
  have loop: "transcribeLoop env v sp (length [a, b]) 0 [a, b] (0, 0)
      = (Dispatch (SetTranscriptionProgress
            \<lparr> current = 1, total = 2, currentFileName = Some (name a) \<rparr>)
           # fst (transcribeFile (env 0) a v sp)
           @ Dispatch (SetTranscriptionProgress
               \<lparr> current = 2, total = 2, currentFileName = Some (name b) \<rparr>)
           # fst (transcribeFile (env 1) b v sp), 1, 1)"
    using A(1) B(1) by (simp add: Let_def split_beta)
  have whole: "transcribeMultipleFiles env [a, b] v sp
      = (Dispatch TranscribeMultipleFilesPending
           # Dispatch (SetTranscriptionProgress
               \<lparr> current = 0, total = 2, currentFileName = None \<rparr>)
           # (Dispatch (SetTranscriptionProgress
                \<lparr> current = 1, total = 2, currentFileName = Some (name a) \<rparr>)
              # fst (transcribeFile (env 0) a v sp)
              @ Dispatch (SetTranscriptionProgress
                  \<lparr> current = 2, total = 2, currentFileName = Some (name b) \<rparr>)
              # fst (transcribeFile (env 1) b v sp))
           @ [Dispatch (SetTranscriptionProgress
                \<lparr> current = 0, total = 0, currentFileName = None \<rparr>),
              Dispatch (TranscribeMultipleFilesFulfilled 1 1)],
         Inr (1, 1))"
    unfolding transcribeMultipleFiles_def loop by simp
  show ?thesis
    using ids a(1) b(1)
    by (simp add: whole A(2,3) B(2,3) statusOf_def
        selectById_thunk_actions del: filesReducer.simps)
qed

theorem transcribeMultipleFiles_success_and_failure_witness:
  "snd (transcribeMultipleFiles
     (\<lambda>i r. if i = 0 then HttpOk None (Some ''/dl/a.mp3'') (Inl [])
             else HttpFailure 500 ''Internal Server Error'' NoDetail)
     [\<lparr> file_id = ''a'', name = ''a.txt'', content = codeUnits ''hi'', status = Ready,
        audioSrc = None, error = None \<rparr>,
      \<lparr> file_id = ''b'', name = ''b.txt'', content = codeUnits ''yo'', status = Ready,
        audioSrc = None, error = None \<rparr>] ''am_michael'' 1) = Inr (1, 1)
   \<and> statusOf (run compareUnits
       (initialState\<lparr>files := \<lparr> ids = [''a'', ''b''], entities =
          [(''a'', \<lparr> file_id = ''a'', name = ''a.txt'', content = codeUnits ''hi'', status = Ready,
                    audioSrc = None, error = None \<rparr>),
           (''b'', \<lparr> file_id = ''b'', name = ''b.txt'', content = codeUnits ''yo'', status = Ready,
                    audioSrc = None, error = None \<rparr>)] \<rparr>\<rparr>)
       (fst (transcribeMultipleFiles
         (\<lambda>i r. if i = 0 then HttpOk None (Some ''/dl/a.mp3'') (Inl [])
                 else HttpFailure 500 ''Internal Server Error'' NoDetail)
         [\<lparr> file_id = ''a'', name = ''a.txt'', content = codeUnits ''hi'', status = Ready,
            audioSrc = None, error = None \<rparr>,
          \<lparr> file_id = ''b'', name = ''b.txt'', content = codeUnits ''yo'', status = Ready,
            audioSrc = None, error = None \<rparr>] ''am_michael'' 1))) ''a'' = Some Transcribed
   \<and> statusOf (run compareUnits
       (initialState\<lparr>files := \<lparr> ids = [''a'', ''b''], entities =
          [(''a'', \<lparr> file_id = ''a'', name = ''a.txt'', content = codeUnits ''hi'', status = Ready,
                    audioSrc = None, error = None \<rparr>),
           (''b'', \<lparr> file_id = ''b'', name = ''b.txt'', content = codeUnits ''yo'', status = Ready,
                    audioSrc = None, error = None \<rparr>)] \<rparr>\<rparr>)
       (fst (transcribeMultipleFiles
         (\<lambda>i r. if i = 0 then HttpOk None (Some ''/dl/a.mp3'') (Inl [])
                 else HttpFailure 500 ''Internal Server Error'' NoDetail)
         [\<lparr> file_id = ''a'', name = ''a.txt'', content = codeUnits ''hi'', status = Ready,
            audioSrc = None, error = None \<rparr>,
          \<lparr> file_id = ''b'', name = ''b.txt'', content = codeUnits ''yo'', status = Ready,
            audioSrc = None, error = None \<rparr>] ''am_michael'' 1))) ''b'' = Some Error"
proof -
  let ?a = "\<lparr> file_id = ''a'', name = ''a.txt'', content = codeUnits ''hi'', status = Ready,
             audioSrc = None, error = None \<rparr>"
  let ?b = "\<lparr> file_id = ''b'', name = ''b.txt'', content = codeUnits ''yo'', status = Ready,
             audioSrc = None, error = None \<rparr>"
  let ?s = "initialState\<lparr>files := \<lparr> ids = [''a'', ''b''], entities =
              [(''a'', ?a), (''b'', ?b)] \<rparr>\<rparr>"
  let ?env = "\<lambda>(i::nat) (r::SpeechRequest).
      if i = 0 then HttpOk None (Some ''/dl/a.mp3'') (Inl [])
      else HttpFailure 500 ''Internal Server Error'' NoDetail"
  have ids: "file_id ?a \<noteq> file_id ?b" by simp
  have a: "selectById (files ?s) (file_id ?a) = Some ?a" "status ?a = Ready"
    by (simp_all add: selectById_def)
  have b: "selectById (files ?s) (file_id ?b) = Some ?b" "status ?b = Ready"
    by (simp_all add: selectById_def)
  have ok: "snd (transcribeText (?env 0) (content ?a) (name ?a) ''am_michael'' 1)
      = Inr \<lparr> resultAudioSrc = ''http://localhost:8880/dl/a.mp3'' \<rparr>"
    by (simp add: transcribeText_def trim_def isWhiteSpace_def codeUnits_def speechResponse_def
        API_BASE_URL_def)
  have ko: "snd (transcribeText (?env 1) (content ?b) (name ?b) ''am_michael'' 1)
      = Inl ''API request failed for b.txt with status 500: Internal Server Error''"
    by (simp add: transcribeText_def trim_def isWhiteSpace_def codeUnits_def speechResponse_def
        errorBodyMessage_def rethrown_def startsWith_def showNat.simps)
  from transcribeMultipleFiles_success_and_failure [OF ids a b ok ko, of compareUnits]
  show ?thesis by simp
qed

lemma attempt_refetchAudioForFile:
  assumes "selectById (files s) (file_id fl) = Some stored"
  shows "processingWhenSent lc s (fst (refetchAudioForFile fetch fl v sp)) (file_id fl)
     \<and> neverReadyAfterDispatch lc s (fst (refetchAudioForFile fetch fl v sp)) (file_id fl)
     \<and> noSkipOfProcessing lc s (fst (refetchAudioForFile fetch fl v sp)) (file_id fl)"
proof -
  from transcribeText_shape [of fetch "content fl" "name fl" v sp]
  consider m where "transcribeText fetch (content fl) (name fl) v sp = ([], Inl m)"
    | req r where "transcribeText fetch (content fl) (name fl) v sp = ([req], r)"
    by blast
  then show ?thesis
  proof cases
    case 1
    with assms show ?thesis
      by (simp add: refetchAudioForFile_def processingWhenSent_def neverReadyAfterDispatch_def
          noSkipOfProcessing_def statusOf_def selectById_thunk_actions
          del: filesReducer.simps)
  next
    case 2
    with assms show ?thesis
      by (cases r) (simp_all add: refetchAudioForFile_def processingWhenSent_def
          neverReadyAfterDispatch_def noSkipOfProcessing_def statusOf_def
          selectById_thunk_actions del: filesReducer.simps)
  qed
qed

lemma attempt_starts_pending:
  "take 1 (fst (transcribeFile fetch fl v sp)) = [Dispatch (TranscribeFilePending fl)]"
  "take 1 (fst (refetchAudioForFile fetch fl v sp)) = [Dispatch (RefetchAudioForFilePending fl)]"
  by (simp_all add: transcribeFile_def refetchAudioForFile_def split: prod.splits sum.splits)

lemma attempt_sends_request:
  assumes "\<not> list_all isWhiteSpace (content fl)"
  shows "list_ex isRequest (fst (transcribeFile fetch fl v sp))"
    and "list_ex isRequest (fst (refetchAudioForFile fetch fl v sp))"
proof -
  from assms have "content fl \<noteq> []" by auto
  with assms trim_nonblank [of "content fl"] show
    "list_ex isRequest (fst (transcribeFile fetch fl v sp))"
    "list_ex isRequest (fst (refetchAudioForFile fetch fl v sp))"
    by (simp_all add: transcribeFile_def refetchAudioForFile_def transcribeText_def Let_def
        split: sum.splits)
qed

lemma attempt_ends:
  assumes "selectById (files s) (file_id fl) = Some stored"
  shows "statusOf (run lc s (fst (transcribeFile fetch fl v sp))) (file_id fl)
      = Some (case snd (transcribeFile fetch fl v sp) of
                Inr payload \<Rightarrow> Transcribed | Inl rejected \<Rightarrow> Error)"
    and "statusOf (run lc s (fst (refetchAudioForFile fetch fl v sp))) (file_id fl)
      = Some (case snd (refetchAudioForFile fetch fl v sp) of
                Inr payload \<Rightarrow> Transcribed | Inl rejected \<Rightarrow> Error)"
  using assms
  by (cases "transcribeText fetch (content fl) (name fl) v sp";
      cases "snd (transcribeText fetch (content fl) (name fl) v sp)";
      simp add: transcribeFile_def refetchAudioForFile_def statusOf_def
        selectById_thunk_actions del: filesReducer.simps)+

text \<open>
  C7. In a synthesis attempt for a record of the store, by \<^verbatim>\<open>transcribeFile\<close> or by
  \<^verbatim>\<open>refetchAudioForFile\<close>: the first event is the dispatch of \<^verbatim>\<open>pending\<close>, which makes
  the record \<^verbatim>\<open>processing\<close>; the record is \<^verbatim>\<open>processing\<close> in the state in which the
  request is sent (and a request is sent when the text is not blank); it is not \<^verbatim>\<open>ready\<close>
  in any state after the attempt was dispatched; no step takes it from \<^verbatim>\<open>ready\<close> to
  \<^verbatim>\<open>transcribed\<close> or \<^verbatim>\<open>error\<close>; and the attempt ends with the record \<^verbatim>\<open>transcribed\<close>
  when it succeeded and in \<^verbatim>\<open>error\<close> when it failed.
\<close>

theorem processing_before_request:
  assumes "selectById (files s) (file_id fl) = Some stored"
  shows "take 1 (fst (transcribeFile fetch fl v sp)) = [Dispatch (TranscribeFilePending fl)]
     \<and> statusOf (step lc s (Dispatch (TranscribeFilePending fl))) (file_id fl) = Some Processing
     \<and> processingWhenSent lc s (fst (transcribeFile fetch fl v sp)) (file_id fl)
     \<and> neverReadyAfterDispatch lc s (fst (transcribeFile fetch fl v sp)) (file_id fl)
     \<and> noSkipOfProcessing lc s (fst (transcribeFile fetch fl v sp)) (file_id fl)
     \<and> statusOf (run lc s (fst (transcribeFile fetch fl v sp))) (file_id fl)
         = Some (case snd (transcribeFile fetch fl v sp) of
                   Inr payload \<Rightarrow> Transcribed | Inl rejected \<Rightarrow> Error)
     \<and> (\<not> list_all isWhiteSpace (content fl)
          \<longrightarrow> list_ex isRequest (fst (transcribeFile fetch fl v sp)))
     \<and> take 1 (fst (refetchAudioForFile fetch fl v sp))
         = [Dispatch (RefetchAudioForFilePending fl)]
     \<and> statusOf (step lc s (Dispatch (RefetchAudioForFilePending fl))) (file_id fl)
         = Some Processing
     \<and> processingWhenSent lc s (fst (refetchAudioForFile fetch fl v sp)) (file_id fl)
     \<and> neverReadyAfterDispatch lc s (fst (refetchAudioForFile fetch fl v sp)) (file_id fl)
     \<and> noSkipOfProcessing lc s (fst (refetchAudioForFile fetch fl v sp)) (file_id fl)
     \<and> statusOf (run lc s (fst (refetchAudioForFile fetch fl v sp))) (file_id fl)
         = Some (case snd (refetchAudioForFile fetch fl v sp) of
                   Inr payload \<Rightarrow> Transcribed | Inl rejected \<Rightarrow> Error)
     \<and> (\<not> list_all isWhiteSpace (content fl)
          \<longrightarrow> list_ex isRequest (fst (refetchAudioForFile fetch fl v sp)))"
proof -
  have pending: "statusOf (step lc s (Dispatch (TranscribeFilePending fl))) (file_id fl)
      = Some Processing"
    "statusOf (step lc s (Dispatch (RefetchAudioForFilePending fl))) (file_id fl)
      = Some Processing"
    using assms
    by (simp_all add: statusOf_def selectById_thunk_actions del: filesReducer.simps)
  from pending attempt_starts_pending [of fetch fl v sp]
    attempt_transcribeFile [OF assms, of lc fetch v sp]
    attempt_refetchAudioForFile [OF assms, of lc fetch v sp]
    attempt_ends [OF assms, of lc fetch v sp]
    attempt_sends_request [of fl fetch v sp]
  show ?thesis by simp
qed

theorem processing_before_request_witness:
  "statusOf (initialState\<lparr>files := \<lparr> ids = [''a''], entities =
          [(''a'', \<lparr> file_id = ''a'', name = ''a.txt'', content = codeUnits ''hi'',
                    status = Ready, audioSrc = None, error = None \<rparr>)] \<rparr>\<rparr>) ''a'' = Some Ready
   \<and> fst (transcribeFile (\<lambda>r. HttpOk (Some ''audio/mpeg'') None (Inr ''blob:1''))
        \<lparr> file_id = ''a'', name = ''a.txt'', content = codeUnits ''hi'', status = Ready,
          audioSrc = None, error = None \<rparr> ''am_michael'' 1)
     = [Dispatch (TranscribeFilePending
          \<lparr> file_id = ''a'', name = ''a.txt'', content = codeUnits ''hi'', status = Ready,
            audioSrc = None, error = None \<rparr>),
        Request \<lparr> req_input = codeUnits ''hi'', req_model = ''kokoro'',
          req_voice = ''am_michael'', req_speed = 1, req_response_format = ''mp3'',
          req_stream = False, req_return_download_link = True \<rparr>,
        Dispatch (TranscribeFileFulfilled ''a'' ''blob:1'')]
   \<and> fst (refetchAudioForFile (\<lambda>r. HttpFailure 500 ''Internal Server Error'' NoDetail)
        \<lparr> file_id = ''a'', name = ''a.txt'', content = codeUnits ''hi'', status = Ready,
          audioSrc = None, error = None \<rparr> ''am_michael'' 1)
     = [Dispatch (RefetchAudioForFilePending
          \<lparr> file_id = ''a'', name = ''a.txt'', content = codeUnits ''hi'', status = Ready,
            audioSrc = None, error = None \<rparr>),
        Request \<lparr> req_input = codeUnits ''hi'', req_model = ''kokoro'',
          req_voice = ''am_michael'', req_speed = 1, req_response_format = ''mp3'',
          req_stream = False, req_return_download_link = True \<rparr>,
        Dispatch (RefetchAudioForFileRejected
          \<lparr> file_id = ''a'', name = ''a.txt'', content = codeUnits ''hi'', status = Ready,
            audioSrc = None, error = None \<rparr>
          (Some ''API request failed for a.txt with status 500: Internal Server Error''))]
   \<and> processingWhenSent compareUnits
       (initialState\<lparr>files := \<lparr> ids = [''a''], entities =
          [(''a'', \<lparr> file_id = ''a'', name = ''a.txt'', content = codeUnits ''hi'',
                    status = Ready, audioSrc = None, error = None \<rparr>)] \<rparr>\<rparr>)
       (fst (transcribeFile (\<lambda>r. HttpOk (Some ''audio/mpeg'') None (Inr ''blob:1''))
          \<lparr> file_id = ''a'', name = ''a.txt'', content = codeUnits ''hi'', status = Ready,
            audioSrc = None, error = None \<rparr> ''am_michael'' 1)) ''a''
   \<and> statusOf (run compareUnits
       (initialState\<lparr>files := \<lparr> ids = [''a''], entities =
          [(''a'', \<lparr> file_id = ''a'', name = ''a.txt'', content = codeUnits ''hi'',
                    status = Ready, audioSrc = None, error = None \<rparr>)] \<rparr>\<rparr>)
       (fst (transcribeFile (\<lambda>r. HttpOk (Some ''audio/mpeg'') None (Inr ''blob:1''))
          \<lparr> file_id = ''a'', name = ''a.txt'', content = codeUnits ''hi'', status = Ready,
            audioSrc = None, error = None \<rparr> ''am_michael'' 1))) ''a'' = Some Transcribed
   \<and> processingWhenSent compareUnits
       (initialState\<lparr>files := \<lparr> ids = [''a''], entities =
          [(''a'', \<lparr> file_id = ''a'', name = ''a.txt'', content = codeUnits ''hi'',
                    status = Ready, audioSrc = None, error = None \<rparr>)] \<rparr>\<rparr>)
       (fst (refetchAudioForFile (\<lambda>r. HttpFailure 500 ''Internal Server Error'' NoDetail)
          \<lparr> file_id = ''a'', name = ''a.txt'', content = codeUnits ''hi'', status = Ready,
            audioSrc = None, error = None \<rparr> ''am_michael'' 1)) ''a''
   \<and> statusOf (run compareUnits
       (initialState\<lparr>files := \<lparr> ids = [''a''], entities =
          [(''a'', \<lparr> file_id = ''a'', name = ''a.txt'', content = codeUnits ''hi'',
                    status = Ready, audioSrc = None, error = None \<rparr>)] \<rparr>\<rparr>)
       (fst (refetchAudioForFile (\<lambda>r. HttpFailure 500 ''Internal Server Error'' NoDetail)
          \<lparr> file_id = ''a'', name = ''a.txt'', content = codeUnits ''hi'', status = Ready,
            audioSrc = None, error = None \<rparr> ''am_michael'' 1))) ''a'' = Some Error"
proof -
  let ?a = "\<lparr> file_id = ''a'', name = ''a.txt'', content = codeUnits ''hi'', status = Ready,
             audioSrc = None, error = None \<rparr>"
  let ?s = "initialState\<lparr>files := \<lparr> ids = [''a''], entities = [(''a'', ?a)] \<rparr>\<rparr>"
  let ?ok = "\<lambda>r::SpeechRequest. HttpOk (Some ''audio/mpeg'') None (Inr ''blob:1'')"
  let ?ko = "\<lambda>r::SpeechRequest. HttpFailure 500 ''Internal Server Error'' NoDetail"
  have stored: "selectById (files ?s) (file_id ?a) = Some ?a"
    by (simp add: selectById_def)
  have ready: "statusOf ?s ''a'' = Some Ready"
    by (simp add: statusOf_def selectById_def)
  have ok: "transcribeFile ?ok ?a ''am_michael'' 1
      = ([Dispatch (TranscribeFilePending ?a),
          Request \<lparr> req_input = codeUnits ''hi'', req_model = ''kokoro'',
            req_voice = ''am_michael'', req_speed = 1, req_response_format = ''mp3'',
            req_stream = False, req_return_download_link = True \<rparr>,
          Dispatch (TranscribeFileFulfilled ''a'' ''blob:1'')],
         Inr (''a'', \<lparr> resultAudioSrc = ''blob:1'' \<rparr>))"
    by (simp add: transcribeFile_def transcribeText_def trim_def isWhiteSpace_def
        codeUnits_def speechResponse_def startsWith_def)
  have ko: "refetchAudioForFile ?ko ?a ''am_michael'' 1
      = ([Dispatch (RefetchAudioForFilePending ?a),
          Request \<lparr> req_input = codeUnits ''hi'', req_model = ''kokoro'',
            req_voice = ''am_michael'', req_speed = 1, req_response_format = ''mp3'',
            req_stream = False, req_return_download_link = True \<rparr>,
          Dispatch (RefetchAudioForFileRejected ?a
            (Some ''API request failed for a.txt with status 500: Internal Server Error''))],
         Inl ''API request failed for a.txt with status 500: Internal Server Error'')"
    by (simp add: refetchAudioForFile_def transcribeText_def trim_def isWhiteSpace_def
        codeUnits_def speechResponse_def errorBodyMessage_def rethrown_def startsWith_def
        showNat.simps)
  from processing_before_request
    [where lc = compareUnits and fetch = ?ok and v = "''am_michael''" and sp = 1, OF stored]
  have A: "processingWhenSent compareUnits ?s (fst (transcribeFile ?ok ?a ''am_michael'' 1)) ''a''"
    "statusOf (run compareUnits ?s (fst (transcribeFile ?ok ?a ''am_michael'' 1))) ''a''
       = Some Transcribed"
    by (simp_all add: ok del: filesReducer.simps)
  from processing_before_request
    [where lc = compareUnits and fetch = ?ko and v = "''am_michael''" and sp = 1, OF stored]
  have B: "processingWhenSent compareUnits ?s
       (fst (refetchAudioForFile ?ko ?a ''am_michael'' 1)) ''a''"
    "statusOf (run compareUnits ?s (fst (refetchAudioForFile ?ko ?a ''am_michael'' 1))) ''a''
       = Some Error"
    by (simp_all add: ko del: filesReducer.simps)
  from ready ok ko A B show ?thesis by simp
qed

section \<open>Properties of reading archives\<close>

lemma extractEntries_names:
  "map name (extractEntries uuid n es)
     = map entryName (filter (\<lambda>e. \<not> dir e
          \<and> (endsWith (entryName e) ''.txt'' \<or> endsWith (entryName e) ''.TXT'')) es)"
  by (induction es arbitrary: n) (auto simp: readyFile_def errorFile_def split: sum.splits)

text \<open>
  C6. Extraction yields one record for each entry that is no directory and whose name ends
  in the suffix of a text file, whatever the case of the suffix. The code tests the two
  spellings \<^verbatim>\<open>.txt\<close> and \<^verbatim>\<open>.TXT\<close> only: an entry \<^verbatim>\<open>notes.Txt\<close> is skipped, and of the
  five entries below, three of which are text files, two records come out.
\<close>

theorem extractEntries_skips_mixed_case_suffix:
  "extractEntries uuid n
      [\<lparr> entryName = ''notes.Txt'', dir = False, entryText = Inr (codeUnits ''hello'') \<rparr>] = []
   \<and> map name (extractEntries uuid n
      [\<lparr> entryName = ''a.txt'', dir = False, entryText = Inr (codeUnits ''hello'') \<rparr>,
       \<lparr> entryName = ''B.TXT'', dir = False, entryText = Inr (codeUnits ''hello'') \<rparr>,
       \<lparr> entryName = ''c.Txt'', dir = False, entryText = Inr (codeUnits ''hello'') \<rparr>,
       \<lparr> entryName = ''docs/'', dir = True, entryText = Inr [] \<rparr>,
       \<lparr> entryName = ''d.png'', dir = False, entryText = Inr (codeUnits ''hello'') \<rparr>])
     = [''a.txt'', ''B.TXT'']"
  by (simp add: endsWith_def readyFile_def)

section \<open>Properties of the persistence transforms\<close>

lemma map_of_objPut: "map_of (objPut k v kvs) = (map_of kvs)(k \<mapsto> v)"
  by (induction kvs) (auto simp: fun_eq_iff)

lemma optGet_objPut:
  "optGet (JObj (objPut k v kvs)) k' = (if k' = k then v else optGet (JObj kvs) k')"
  by (simp add: map_of_objPut)

lemma optGet_JObj_D: "optGet v k = JObj kvs \<Longrightarrow> JObj (spread v) = v"
  by (cases v) simp_all

lemma optGet_JStr_D: "optGet v k = JStr s \<Longrightarrow> JObj (spread v) = v"
  by (cases v) simp_all

lemma cleanEntities_typed:
  "list_all (\<lambda>(k, f). audioSrcTyped f) ents \<Longrightarrow>
   cleanEntities ents
     = Inr (map (\<lambda>(k, f). (k, if transientHandle f
                              then JObj (objPut ''audioSrc'' (JStr []) (spread f)) else f)) ents)"
  by (induction ents)
     (auto simp: isBlobFile_def audioSrcTyped_def transientHandle_def split: jsval.splits)

lemma blanked_file:
  assumes "transientHandle f"
  shows "optGet (JObj (objPut ''audioSrc'' (JStr []) (spread f))) key
     = (if key = ''audioSrc'' then JStr [] else optGet f key)"
proof -
  from assms obtain s where "optGet f ''audioSrc'' = JStr s"
    by (auto simp: transientHandle_def split: jsval.splits)
  then have "JObj (spread f) = f" by (rule optGet_JStr_D)
  then show ?thesis by (simp add: optGet_objPut del: optGet.simps)
qed

text \<open>
  The write transform reads the collection at \<^verbatim>\<open>inboundState.files.entities\<close>. A state
  without a \<^verbatim>\<open>files\<close> property, such as a bare collection, is returned as it is.
\<close>

lemma filesTransform_in_without_files:
  "optGet inboundState ''files'' = JUndefined \<Longrightarrow> filesTransform_in inboundState = Inr inboundState"
  by (simp add: filesTransform_in_def)

text \<open>
  The write transform as a function, applied to a state that holds the collection \<open>ents\<close> at
  \<^verbatim>\<open>files.entities\<close>: a record whose \<^verbatim>\<open>audioSrc\<close> starts with \<^verbatim>\<open>blob:\<close> gets the empty
  string as \<^verbatim>\<open>audioSrc\<close> and keeps every other property (\<^verbatim>\<open>id\<close>, \<^verbatim>\<open>name\<close>,
  \<^verbatim>\<open>content\<close>, \<^verbatim>\<open>status\<close>, \<^verbatim>\<open>error\<close>); every other record is unchanged; the keys of the
  collection and the rest of the state are unchanged.
\<close>

lemma filesTransform_in_blanks_transient_handles:
  assumes ents: "optGet (optGet inboundState ''files'') ''entities'' = JObj ents"
    and typed: "list_all (\<lambda>(k, f). audioSrcTyped f) ents"
  shows "\<exists>outcome cleaned.
      filesTransform_in inboundState = Inr outcome
      \<and> optGet (optGet outcome ''files'') ''entities'' = JObj cleaned
      \<and> list_all2 (\<lambda>(k, f) (k', f'). k' = k \<and>
            (if transientHandle f
             then optGet f' ''audioSrc'' = JStr []
                  \<and> (\<forall>key. key \<noteq> ''audioSrc'' \<longrightarrow> optGet f' key = optGet f key)
             else f' = f)) ents cleaned
      \<and> (\<forall>key. key \<noteq> ''files'' \<longrightarrow> optGet outcome key = optGet inboundState key)
      \<and> (\<forall>key. key \<noteq> ''entities'' \<longrightarrow>
            optGet (optGet outcome ''files'') key = optGet (optGet inboundState ''files'') key)"
proof -
  let ?blank = "\<lambda>(k, f). (k, if transientHandle f
      then JObj (objPut ''audioSrc'' (JStr []) (spread f)) else f)"
  let ?files = "JObj (objPut ''entities'' (JObj (map ?blank ents))
      (spread (optGet inboundState ''files'')))"
  let ?outcome = "JObj (objPut ''files'' ?files (spread inboundState))"
  from ents have fs: "JObj (spread (optGet inboundState ''files'')) = optGet inboundState ''files''"
    by (rule optGet_JObj_D)
  from ents obtain fkvs where "optGet inboundState ''files'' = JObj fkvs"
    by (cases "optGet inboundState ''files''") simp_all
  then have st: "JObj (spread inboundState) = inboundState" by (rule optGet_JObj_D)
  have run: "filesTransform_in inboundState = Inr ?outcome"
    by (simp add: filesTransform_in_def ents cleanEntities_typed [OF typed])
  have files: "optGet ?outcome ''files'' = ?files"
    by (simp add: optGet_objPut del: optGet.simps)
  have e: "optGet (optGet ?outcome ''files'') ''entities'' = JObj (map ?blank ents)"
    unfolding files by (simp add: optGet_objPut del: optGet.simps)
  have rel: "list_all2 (\<lambda>(k, f) (k', f'). k' = k \<and>
            (if transientHandle f
             then optGet f' ''audioSrc'' = JStr []
                  \<and> (\<forall>key. key \<noteq> ''audioSrc'' \<longrightarrow> optGet f' key = optGet f key)
             else f' = f)) ents (map ?blank ents)"
    by (auto simp: list_all2_map2 blanked_file simp del: optGet.simps intro!: list_all2_refl)
  have frame1: "\<forall>key. key \<noteq> ''files'' \<longrightarrow> optGet ?outcome key = optGet inboundState key"
    by (simp add: optGet_objPut st del: optGet.simps)
  have frame2: "\<forall>key. key \<noteq> ''entities'' \<longrightarrow>
      optGet (optGet ?outcome ''files'') key = optGet (optGet inboundState ''files'') key"
    unfolding files by (simp add: optGet_objPut fs del: optGet.simps)
  from run e rel frame1 frame2 show ?thesis by blast
qed

lemma filesTransform_in_at_files_entities:
  "filesTransform_in
     (JObj [(''files'', JObj [(''ids'', JArr [JStr ''a'', JStr ''b'']),
        (''entities'', JObj
           [(''a'', JObj [(''id'', JStr ''a''), (''name'', JStr ''a.txt''),
                          (''content'', JStr ''hi''), (''status'', JStr ''transcribed''),
                          (''audioSrc'', JStr ''blob:1'')]),
            (''b'', JObj [(''id'', JStr ''b''), (''name'', JStr ''b.txt''),
                          (''content'', JStr ''yo''), (''status'', JStr ''transcribed''),
                          (''audioSrc'', JStr ''http://localhost:8880/dl/b.mp3'')])])])])
   = Inr
     (JObj [(''files'', JObj [(''ids'', JArr [JStr ''a'', JStr ''b'']),
        (''entities'', JObj
           [(''a'', JObj [(''id'', JStr ''a''), (''name'', JStr ''a.txt''),
                          (''content'', JStr ''hi''), (''status'', JStr ''transcribed''),
                          (''audioSrc'', JStr [])]),
            (''b'', JObj [(''id'', JStr ''b''), (''name'', JStr ''b.txt''),
                          (''content'', JStr ''yo''), (''status'', JStr ''transcribed''),
                          (''audioSrc'', JStr ''http://localhost:8880/dl/b.mp3'')])])])])"
proof -
  let ?ents = "[(''a'', JObj [(''id'', JStr ''a''), (''name'', JStr ''a.txt''),
                          (''content'', JStr ''hi''), (''status'', JStr ''transcribed''),
                          (''audioSrc'', JStr ''blob:1'')]),
            (''b'', JObj [(''id'', JStr ''b''), (''name'', JStr ''b.txt''),
                          (''content'', JStr ''yo''), (''status'', JStr ''transcribed''),
                          (''audioSrc'', JStr ''http://localhost:8880/dl/b.mp3'')])]"
  let ?st = "JObj [(''files'', JObj [(''ids'', JArr [JStr ''a'', JStr ''b'']),
        (''entities'', JObj ?ents)])]"
  have ents: "optGet (optGet ?st ''files'') ''entities'' = JObj ?ents" by simp
  have typed: "list_all (\<lambda>(k, f). audioSrcTyped f) ?ents"
    by (simp add: audioSrcTyped_def)
  from filesTransform_in_blanks_transient_handles [OF ents typed]
  show ?thesis
    by (simp add: filesTransform_in_def isBlobFile_def startsWith_def)
qed

lemma getProp_truthy: "truthy v \<Longrightarrow> getProp v k = Inr (optGet v k)"
  by (cases v) simp_all

lemma optGet_truthy_D:
  "truthy (optGet v k) \<Longrightarrow> truthy v \<and> typeofObject v \<and> JObj (spread v) = v"
  by (cases v) simp_all

lemma filesTransform_out_eq:
  "filesTransform_out st
     = Inr (if \<not> truthy (optGet st ''files'')
            then JObj (objPut ''files'' initialAdapterState (spread st))
            else if lacksStructure (optGet st ''files'')
            then (if truthy (optGet (optGet st ''files'') ''entities'')
                     \<and> typeofObject (optGet (optGet st ''files'') ''entities'')
                  then JObj (objPut ''files''
                         (JObj (objPut ''entities'' (optGet (optGet st ''files'') ''entities'')
                            (objPut ''ids''
                               (JArr (map JStr (objectKeys (optGet (optGet st ''files'') ''entities''))))
                               (spread (optGet st ''files'')))))
                         (spread st))
                  else JObj (objPut ''files'' initialAdapterState (spread st)))
            else st)"
proof (cases "truthy st")
  case False
  then have "\<not> truthy (optGet st ''files'')" by (cases st) simp_all
  with False show ?thesis by (simp add: filesTransform_out_def)
next
  case True
  then show ?thesis
    by (simp add: filesTransform_out_def getProp_truthy lacksStructure_def del: optGet.simps)
qed

lemma migrate_eq:
  "migrate st
     = Inr (if truthy (optGet st ''files'')
               \<and> (\<not> truthy (optGet (optGet st ''files'') ''ids'')
                    \<or> \<not> truthy (optGet (optGet st ''files'') ''entities''))
            then JObj (objPut ''files'' initialAdapterState (spread st))
            else st)"
proof (cases "truthy (optGet st ''files'')")
  case True
  from optGet_truthy_D [OF this] True show ?thesis
    by (simp add: migrate_def getProp_truthy del: optGet.simps)
next
  case False
  then show ?thesis
    by (cases "truthy st") (simp_all add: migrate_def getProp_truthy del: optGet.simps)
qed

text \<open>
  The guard of the repair tests only whether \<^verbatim>\<open>entities\<close> is truthy; that it is an object
  is tested inside the repair. A collection whose \<^verbatim>\<open>ids\<close> is an array and whose
  \<^verbatim>\<open>entities\<close> is a non-empty string passes both functions as it is.
\<close>

lemma repair_keeps_unusable_entities:
  "filesTransform_out (JObj [(''files'', JObj [(''ids'', JArr []), (''entities'', JStr ''x'')])])
     = Inr (JObj [(''files'', JObj [(''ids'', JArr []), (''entities'', JStr ''x'')])])
   \<and> migrate (JObj [(''files'', JObj [(''ids'', JArr []), (''entities'', JStr ''x'')])])
     = Inr (JObj [(''files'', JObj [(''ids'', JArr []), (''entities'', JStr ''x'')])])
   \<and> \<not> wellFormedCollection (JObj [(''ids'', JArr []), (''entities'', JStr ''x'')])
   \<and> JObj [(''ids'', JArr []), (''entities'', JStr ''x'')] \<noteq> initialAdapterState"
  by (simp add: filesTransform_out_def migrate_def wellFormedCollection_def
      initialAdapterState_def)

text \<open>
  The two functions of the repair, each applied to a state that holds the collection under
  \<^verbatim>\<open>files\<close>: neither throws; \<^verbatim>\<open>filesTransform.out\<close> rebuilds \<^verbatim>\<open>ids\<close> from the keys
  of \<^verbatim>\<open>entities\<close> or gives the empty collection; \<^verbatim>\<open>migrate\<close> gives the empty collection
  when \<^verbatim>\<open>ids\<close> or \<^verbatim>\<open>entities\<close> is missing or falsy.
\<close>

lemma repair_functions:
  "(\<exists>outcome. filesTransform_out st = Inr outcome
      \<and> (\<not> truthy (optGet st ''files'') \<longrightarrow> optGet outcome ''files'' = initialAdapterState)
      \<and> (truthy (optGet st ''files'') \<and> lacksStructure (optGet st ''files'') \<longrightarrow>
           (if truthy (optGet (optGet st ''files'') ''entities'')
                \<and> typeofObject (optGet (optGet st ''files'') ''entities'')
            then optGet (optGet outcome ''files'') ''ids''
                   = JArr (map JStr (objectKeys (optGet (optGet st ''files'') ''entities'')))
                 \<and> optGet (optGet outcome ''files'') ''entities''
                   = optGet (optGet st ''files'') ''entities''
            else optGet outcome ''files'' = initialAdapterState))
      \<and> (truthy (optGet st ''files'') \<and> \<not> lacksStructure (optGet st ''files'') \<longrightarrow> outcome = st)
      \<and> ((truthy (optGet (optGet st ''files'') ''entities'')
             \<longrightarrow> isPlainObject (optGet (optGet st ''files'') ''entities''))
           \<longrightarrow> wellFormedCollection (optGet outcome ''files'')))
   \<and> (\<exists>outcome. migrate st = Inr outcome
      \<and> (truthy (optGet st ''files'')
           \<and> (\<not> truthy (optGet (optGet st ''files'') ''ids'')
                \<or> \<not> truthy (optGet (optGet st ''files'') ''entities''))
          \<longrightarrow> optGet outcome ''files'' = initialAdapterState)
      \<and> (\<not> (truthy (optGet st ''files'')
           \<and> (\<not> truthy (optGet (optGet st ''files'') ''ids'')
                \<or> \<not> truthy (optGet (optGet st ''files'') ''entities'')))
          \<longrightarrow> outcome = st))"
proof -
  let ?fs = "optGet st ''files''"
  let ?ents = "optGet ?fs ''entities''"
  have init: "wellFormedCollection initialAdapterState"
    by (simp add: wellFormedCollection_def initialAdapterState_def)
  have rebuilt: "wellFormedCollection
      (JObj (objPut ''entities'' ?ents (objPut ''ids'' (JArr ks) (spread ?fs))))"
    if "isPlainObject ?ents" for ks
    using that by (simp add: wellFormedCollection_def optGet_objPut del: optGet.simps)
  have kept: "wellFormedCollection ?fs"
    if "\<not> lacksStructure ?fs" "truthy ?ents \<longrightarrow> isPlainObject ?ents"
    using that by (auto simp: wellFormedCollection_def lacksStructure_def)
  have plain: "typeofObject v" if "isPlainObject v" for v
    using that by (cases v) simp_all
  have out: ?thesis if "\<not> truthy ?fs"
    using that init
    by (simp add: filesTransform_out_eq migrate_eq optGet_objPut del: optGet.simps)
  have ?thesis if fs: "truthy ?fs"
  proof (cases "lacksStructure ?fs")
    case True
    with fs init rebuilt plain show ?thesis
      by (auto simp add: filesTransform_out_eq migrate_eq optGet_objPut simp del: optGet.simps)
  next
    case False
    with fs kept show ?thesis
      by (auto simp add: filesTransform_out_eq migrate_eq optGet_objPut lacksStructure_def
          simp del: optGet.simps)
  qed
  with out show ?thesis by blast
qed

lemma repair_functions_at_missing_ids:
  "lacksStructure (JObj [(''entities'', JObj
       [(''a'', JObj [(''id'', JStr ''a'')]), (''b'', JObj [(''id'', JStr ''b'')])])])
   \<and> filesTransform_out (JObj [(''files'', JObj [(''entities'', JObj
       [(''a'', JObj [(''id'', JStr ''a'')]), (''b'', JObj [(''id'', JStr ''b'')])])])])
     = Inr (JObj [(''files'', JObj [(''entities'', JObj
         [(''a'', JObj [(''id'', JStr ''a'')]), (''b'', JObj [(''id'', JStr ''b'')])]),
         (''ids'', JArr [JStr ''a'', JStr ''b''])])])
   \<and> wellFormedCollection (JObj [(''entities'', JObj
         [(''a'', JObj [(''id'', JStr ''a'')]), (''b'', JObj [(''id'', JStr ''b'')])]),
         (''ids'', JArr [JStr ''a'', JStr ''b''])])
   \<and> filesTransform_out JNull = Inr (JObj [(''files'', initialAdapterState)])
   \<and> migrate (JObj [(''files'', JObj [(''entities'', JObj
       [(''a'', JObj [(''id'', JStr ''a'')]), (''b'', JObj [(''id'', JStr ''b'')])])])])
     = Inr (JObj [(''files'', initialAdapterState)])"
proof -
  have lacks: "lacksStructure (JObj [(''entities'', JObj
       [(''a'', JObj [(''id'', JStr ''a'')]), (''b'', JObj [(''id'', JStr ''b'')])])])"
    by (simp add: lacksStructure_def)
  from lacks
    repair_functions [of "JObj [(''files'', JObj [(''entities'', JObj
       [(''a'', JObj [(''id'', JStr ''a'')]), (''b'', JObj [(''id'', JStr ''b'')])])])]"]
    repair_functions [of JNull]
  show ?thesis
    by (simp add: filesTransform_out_def migrate_def objectKeys_def wellFormedCollection_def
        initialAdapterState_def)
qed

section \<open>Properties of the persistence of the files slice\<close>

lemma transformEach_unchanged:
  "list_all (\<lambda>(key, subState). f subState = Inr subState) kvs \<Longrightarrow> transformEach f kvs = Inr kvs"
  by (induction kvs) auto

text \<open>
  The state of the slice holds the collection under \<^verbatim>\<open>files\<close>, and the collection has no
  \<^verbatim>\<open>files\<close> property of its own: the write transform gets the collection and returns it as
  it is.
\<close>

lemma persistFiles_collection_unchanged:
  assumes "optGet collection ''files'' = JUndefined"
  shows "persistFiles (JObj [(''files'', collection)]) = Inr [(''files'', collection)]"
  using assms by (simp add: persistFiles_def filesBlacklist_def filesTransform_in_without_files)

text \<open>
  C8. Persisting blanks every transient \<^verbatim>\<open>audioSrc\<close>, a handle that starts with
  \<^verbatim>\<open>blob:\<close>, and leaves the rest of every record as it is. The write transform reads the
  records at \<^verbatim>\<open>inboundState.files.entities\<close> and blanks them there, as its comment says,
  but what it is given is the value under the key \<^verbatim>\<open>files\<close>, the collection itself, in
  which it finds no \<^verbatim>\<open>files\<close>: for the state below, with one transcribed record whose
  \<^verbatim>\<open>audioSrc\<close> is \<^verbatim>\<open>blob:1\<close>, the handle is written to the store.
\<close>

theorem persistFiles_keeps_transient_handle:
  "filesTransform_in
     (JObj [(''ids'', JArr [JStr ''a'']),
        (''entities'', JObj
           [(''a'', JObj [(''id'', JStr ''a''), (''name'', JStr ''a.txt''),
                          (''content'', JStr ''hi''), (''status'', JStr ''transcribed''),
                          (''audioSrc'', JStr ''blob:1'')])])])
     = Inr (JObj [(''ids'', JArr [JStr ''a'']),
        (''entities'', JObj
           [(''a'', JObj [(''id'', JStr ''a''), (''name'', JStr ''a.txt''),
                          (''content'', JStr ''hi''), (''status'', JStr ''transcribed''),
                          (''audioSrc'', JStr ''blob:1'')])])])
   \<and> persistFiles
     (JObj [(''files'', JObj [(''ids'', JArr [JStr ''a'']),
        (''entities'', JObj
           [(''a'', JObj [(''id'', JStr ''a''), (''name'', JStr ''a.txt''),
                          (''content'', JStr ''hi''), (''status'', JStr ''transcribed''),
                          (''audioSrc'', JStr ''blob:1'')])])]),
        (''isReadingFiles'', JBool False), (''isTranscribing'', JBool False),
        (''isDownloading'', JBool False), (''isRestoringAudio'', JBool False),
        (''transcriptionProgress'',
           JObj [(''current'', JNum 0), (''total'', JNum 0), (''currentFileName'', JNull)]),
        (''error'', JNull)])
     = Inr [(''files'', JObj [(''ids'', JArr [JStr ''a'']),
        (''entities'', JObj
           [(''a'', JObj [(''id'', JStr ''a''), (''name'', JStr ''a.txt''),
                          (''content'', JStr ''hi''), (''status'', JStr ''transcribed''),
                          (''audioSrc'', JStr ''blob:1'')])])])]"
  by (simp add: persistFiles_def filesBlacklist_def filesTransform_in_def)

lemma restoreFiles_never_fails: "\<exists>state. restoreFiles stored = Inr state"
proof -
  have "\<exists>restored. transformEach filesTransform_out kvs = Inr restored" for kvs
    by (induction kvs) (auto simp: filesTransform_out_eq)
  then obtain restored where "transformEach filesTransform_out stored = Inr restored"
    by blast
  then show ?thesis by (simp add: restoreFiles_def migrate_eq)
qed

text \<open>
  C9. On load the repair never fails, rebuilds \<^verbatim>\<open>ids\<close> from the keys of the entities of
  a stored collection that lacks it, and returns a well-formed collection in all cases. It
  never fails (\<open>restoreFiles_never_fails\<close>), but the rest does not hold. \<^verbatim>\<open>out\<close> is given
  the stored collection, looks for the collection under \<^verbatim>\<open>files\<close> of it, finds none and
  adds an empty one there without rebuilding \<^verbatim>\<open>ids\<close>; \<^verbatim>\<open>migrate\<close> then finds no
  \<^verbatim>\<open>ids\<close> and replaces the collection by the empty one: the entity \<^verbatim>\<open>a\<close> below is lost
  where the claim says \<^verbatim>\<open>ids\<close> becomes \<^verbatim>\<open>['a']\<close>. And a stored collection whose \<^verbatim>\<open>ids\<close>
  is an array and whose \<^verbatim>\<open>entities\<close> is the string \<^verbatim>\<open>x\<close> is restored with that string as
  its entities, which is no well-formed collection.
\<close>

theorem restoreFiles_drops_entities_without_ids:
  "restoreFiles
     [(''files'', JObj [(''entities'', JObj [(''a'', JObj [(''id'', JStr ''a'')])])])]
     = Inr (JObj [(''files'', JObj [(''ids'', JArr []), (''entities'', JObj [])])])
   \<and> filesTransform_out (JObj [(''entities'', JObj [(''a'', JObj [(''id'', JStr ''a'')])])])
     = Inr (JObj [(''entities'', JObj [(''a'', JObj [(''id'', JStr ''a'')])]),
                  (''files'', JObj [(''ids'', JArr []), (''entities'', JObj [])])])
   \<and> restoreFiles [(''files'', JObj [(''ids'', JArr []), (''entities'', JStr ''x'')])]
     = Inr (JObj [(''files'', JObj [(''ids'', JArr []), (''entities'', JStr ''x''),
                    (''files'', JObj [(''ids'', JArr []), (''entities'', JObj [])])])])
   \<and> \<not> wellFormedCollection (JObj [(''ids'', JArr []), (''entities'', JStr ''x''),
                    (''files'', JObj [(''ids'', JArr []), (''entities'', JObj [])])])"
  by (simp add: restoreFiles_def filesTransform_out_def migrate_def initialAdapterState_def
      wellFormedCollection_def)

theorem restoreFiles_drops_entities_without_ids_witness:
  "(case restoreFiles
           [(''files'', JObj [(''entities'', JObj [(''a'', JObj [(''id'', JStr ''a'')])])])] of
      Inr state \<Rightarrow> optGet (optGet state ''files'') ''ids'' = JArr []
                   \<and> optGet (optGet state ''files'') ''entities'' = JObj []
    | Inl e \<Rightarrow> False)
   \<and> (case restoreFiles [(''files'', JObj [(''ids'', JArr []), (''entities'', JStr ''x'')])] of
      Inr state \<Rightarrow> optGet (optGet state ''files'') ''entities'' = JStr ''x''
    | Inl e \<Rightarrow> False)"
  using restoreFiles_drops_entities_without_ids by simp

end
